theory Spec2Isabelle
  imports Complex_Main "HOL-Library.AList" "HOL-Library.Log_Nat"
begin

section \<open>Python primitives used by the program\<close>

text \<open>
  Exceptions are values. The library calls of the program that can raise
  (\<^verbatim>\<open>list.remove\<close>, one-argument \<^verbatim>\<open>dict.pop\<close>, \<^verbatim>\<open>sum\<close> and \<^verbatim>\<open>/\<close>) carry
  their error branches, so that "this call never raises" is a theorem and not a
  convention. \<open>AttributeError\<close> stands for a method called on an object of the wrong
  class.
\<close>

datatype py_error =
    ValueError string
  | KeyError string
  | ZeroDivisionError
  | OverflowError
  | AttributeError string

text \<open>
  A Python \<^verbatim>\<open>dict\<close> keeps insertion order: it is an association list.
  \<^verbatim>\<open>d[k] = v\<close> is \<^const>\<open>AList.update\<close> (overwrite in place, else append),
  \<^verbatim>\<open>d.pop(k, None)\<close> is \<^const>\<open>AList.delete\<close>.
\<close>

type_synonym ('k, 'v) dict = "('k \<times> 'v) list"

definition dict_contains :: "'k \<Rightarrow> ('k, 'v) dict \<Rightarrow> bool" where
  "dict_contains k d = (k \<in> set (map fst d))"

definition dict_values :: "('k, 'v) dict \<Rightarrow> 'v list" where
  "dict_values d = map snd d"

definition dict_pop :: "string \<Rightarrow> (string, 'v) dict \<Rightarrow> py_error + ('v \<times> (string, 'v) dict)" where
  "dict_pop k d =
     (case map_of d k of
        None \<Rightarrow> Inl (KeyError k)
      | Some v \<Rightarrow> Inr (v, AList.delete k d))"

definition list_remove :: "'a \<Rightarrow> 'a list \<Rightarrow> py_error + 'a list" where
  "list_remove x xs =
     (if x \<in> set xs then Inr (remove1 x xs)
      else Inl (ValueError ''list.remove(x): x not in list''))"

definition bind_err :: "py_error + 'a \<Rightarrow> ('a \<Rightarrow> py_error + 'b) \<Rightarrow> py_error + 'b" where
  "bind_err r k = (case r of Inl e \<Rightarrow> Inl e | Inr x \<Rightarrow> k x)"

section \<open>Python numbers\<close>

text \<open>
  A number is an \<^verbatim>\<open>int\<close> (unbounded) or a \<^verbatim>\<open>float\<close> (an IEEE 754 double).
  A finite double is given by its value; \<open>Finite 0\<close> is \<open>+0.0\<close>. Every float
  operation computes the exact result and rounds it to 53 significant bits, ties to
  even, with gradual underflow below \<open>2 powi (- 1022)\<close>; a float operation that exceeds
  the range gives an infinity, whereas the conversion of an \<^verbatim>\<open>int\<close> to a float and
  the true division of two \<^verbatim>\<open>int\<close>s raise \<^verbatim>\<open>OverflowError\<close> there.
\<close>

datatype double = Finite real | NegZero | PosInf | NegInf | NaN

datatype py_num = PyInt int | PyFloat double

text \<open>The exponent of the leading bit of a positive number.\<close>

definition floor_log2 :: "real \<Rightarrow> int" where
  "floor_log2 a = (if 1 \<le> a then bitlen \<lfloor>a\<rfloor> - 1 else - bitlen (\<lceil>1 / a\<rceil> - 1))"

text \<open>The spacing of the doubles around a non-negative number.\<close>

definition quantum :: "real \<Rightarrow> real" where
  "quantum a = 2 powi (max (floor_log2 a) (- 1022) - 52)"

definition round_half_even :: "real \<Rightarrow> int" where
  "round_half_even x =
     (if x - of_int \<lfloor>x\<rfloor> < 1 / 2 then \<lfloor>x\<rfloor>
      else if 1 / 2 < x - of_int \<lfloor>x\<rfloor> then \<lfloor>x\<rfloor> + 1
      else if even \<lfloor>x\<rfloor> then \<lfloor>x\<rfloor> else \<lfloor>x\<rfloor> + 1)"

definition round_double :: "real \<Rightarrow> real" where
  "round_double r = sgn r * (of_int (round_half_even (\<bar>r\<bar> / quantum \<bar>r\<bar>)) * quantum \<bar>r\<bar>)"

text \<open>
  From this magnitude on, rounding would give \<open>2 ^ 1024\<close>: the largest double is
  \<open>2 ^ 1024 - 2 ^ 971\<close>.
\<close>

definition overflow_threshold :: real where
  "overflow_threshold = 2 ^ 1024 - 2 ^ 970"

text \<open>The double for the exact result \<open>r\<close> of a float operation, \<open>neg\<close> its sign.\<close>

definition fl :: "bool \<Rightarrow> real \<Rightarrow> double" where
  "fl neg r =
     (if overflow_threshold \<le> \<bar>r\<bar> then (if neg then NegInf else PosInf)
      else if round_double r = 0 then (if neg then NegZero else Finite 0)
      else Finite (round_double r))"

definition float_of_int :: "int \<Rightarrow> py_error + double" where
  "float_of_int i =
     (if overflow_threshold \<le> \<bar>of_int i\<bar> then Inl OverflowError
      else Inr (Finite (round_double (of_int i))))"

definition int_truediv :: "int \<Rightarrow> int \<Rightarrow> py_error + double" where
  "int_truediv a b =
     (if b = 0 then Inl ZeroDivisionError
      else if overflow_threshold \<le> \<bar>of_int a / of_int b\<bar> then Inl OverflowError
      else Inr (fl ((a < 0) \<noteq> (b < 0)) (of_int a / of_int b)))"

fun float_add :: "double \<Rightarrow> double \<Rightarrow> double" where
  "float_add NaN y = NaN"
| "float_add x NaN = NaN"
| "float_add PosInf NegInf = NaN"
| "float_add NegInf PosInf = NaN"
| "float_add PosInf y = PosInf"
| "float_add NegInf y = NegInf"
| "float_add x PosInf = PosInf"
| "float_add x NegInf = NegInf"
| "float_add NegZero y = y"
| "float_add x NegZero = x"
| "float_add (Finite x) (Finite y) = fl (x + y < 0) (x + y)"

definition is_neg :: "double \<Rightarrow> bool" where
  "is_neg x = (case x of Finite r \<Rightarrow> r < 0 | NegZero \<Rightarrow> True | NegInf \<Rightarrow> True | _ \<Rightarrow> False)"

definition is_zero :: "double \<Rightarrow> bool" where
  "is_zero x = (x = Finite 0 \<or> x = NegZero)"

definition is_inf :: "double \<Rightarrow> bool" where
  "is_inf x = (x = PosInf \<or> x = NegInf)"

definition magnitude :: "double \<Rightarrow> real" where
  "magnitude x = (case x of Finite r \<Rightarrow> r | _ \<Rightarrow> 0)"

definition float_truediv :: "double \<Rightarrow> double \<Rightarrow> py_error + double" where
  "float_truediv x y =
     (if is_zero y then Inl ZeroDivisionError
      else if x = NaN \<or> y = NaN \<or> (is_inf x \<and> is_inf y) then Inr NaN
      else if is_inf x then Inr (if is_neg x \<noteq> is_neg y then NegInf else PosInf)
      else if is_inf y then Inr (if is_neg x \<noteq> is_neg y then NegZero else Finite 0)
      else Inr (fl (is_neg x \<noteq> is_neg y) (magnitude x / magnitude y)))"

text \<open>\<^verbatim>\<open>x + y\<close> and \<^verbatim>\<open>x / y\<close>: an \<^verbatim>\<open>int\<close> meeting a float is converted first.\<close>

fun py_add :: "py_num \<Rightarrow> py_num \<Rightarrow> py_error + py_num" where
  "py_add (PyInt a) (PyInt b) = Inr (PyInt (a + b))"
| "py_add (PyInt a) (PyFloat y) = bind_err (float_of_int a) (\<lambda>x. Inr (PyFloat (float_add x y)))"
| "py_add (PyFloat x) (PyInt b) = bind_err (float_of_int b) (\<lambda>y. Inr (PyFloat (float_add x y)))"
| "py_add (PyFloat x) (PyFloat y) = Inr (PyFloat (float_add x y))"

fun py_truediv :: "py_num \<Rightarrow> py_num \<Rightarrow> py_error + py_num" where
  "py_truediv (PyInt a) (PyInt b) = map_sum id PyFloat (int_truediv a b)"
| "py_truediv (PyInt a) (PyFloat y) =
     bind_err (float_of_int a) (\<lambda>x. map_sum id PyFloat (float_truediv x y))"
| "py_truediv (PyFloat x) (PyInt b) =
     bind_err (float_of_int b) (\<lambda>y. map_sum id PyFloat (float_truediv x y))"
| "py_truediv (PyFloat x) (PyFloat y) = map_sum id PyFloat (float_truediv x y)"

text \<open>
  \<^verbatim>\<open>sum(xs)\<close> adds from left to right, starting from the \<^verbatim>\<open>int\<close> 0. (From
  version 3.12 on CPython adds floats with a compensated algorithm, which can change
  the last bit of an inexact sum; that refinement is not modelled.)
\<close>

fun py_sum_from :: "py_num \<Rightarrow> py_num list \<Rightarrow> py_error + py_num" where
  "py_sum_from acc [] = Inr acc"
| "py_sum_from acc (x # xs) = bind_err (py_add acc x) (\<lambda>acc'. py_sum_from acc' xs)"

definition py_sum :: "py_num list \<Rightarrow> py_error + py_num" where
  "py_sum xs = py_sum_from (PyInt 0) xs"

section \<open>Data model\<close>

text \<open>
  Objects have identity: a student holds references to courses and a course holds
  references to students, so objects live in a store and are named by addresses.
  Each class has its own store (a total function from addresses to objects, with a
  counter for the next free address). Grades and credits are Python numbers.
  The program attaches only students as observers (the base class \<^verbatim>\<open>Observer\<close>
  has an empty \<^verbatim>\<open>update\<close>), so the observers of a course are student references.
  The field \<^verbatim>\<open>courses\<close> exists in three classes and \<^verbatim>\<open>students\<close> in two;
  the teacher's and the registry's fields carry the prefixes \<open>t_\<close> and \<open>u_\<close>.
\<close>

type_synonym sref = nat
type_synonym tref = nat
type_synonym aref = nat
type_synonym cref = nat
type_synonym uref = nat

datatype gpa_strategy = GPAStrategy | RegularGPA

record person =
  name :: string
  person_id :: string
  email :: string

record course =
  course_code :: string
  course_name :: string
  credit :: py_num
  students :: "sref list"
  observers :: "sref list"

record student = person +
  courses :: "(string, cref) dict"
  grades :: "(string, py_num) dict"
  gpa_strategy :: gpa_strategy

record teacher = person +
  t_courses :: "cref list"

record university =
  u_students :: "(string, sref) dict"
  u_teachers :: "(string, tref) dict"
  u_courses :: "(string, cref) dict"

record state =
  student_obj :: "sref \<Rightarrow> student"
  next_student :: nat
  teacher_obj :: "tref \<Rightarrow> teacher"
  next_teacher :: nat
  authority_obj :: "aref \<Rightarrow> person"
  next_authority :: nat
  course_obj :: "cref \<Rightarrow> course"
  next_course :: nat
  university_obj :: "uref \<Rightarrow> university"
  next_university :: nat
  UniversitySystem_instance :: "uref option"
  stdout :: "string list"

datatype user_ref = StudentRef sref | TeacherRef tref | AuthorityRef aref

definition init_state :: state where
  "init_state =
     \<lparr>student_obj = (\<lambda>_. \<lparr>name = [], person_id = [], email = [],
                             courses = [], grades = [], gpa_strategy = GPAStrategy\<rparr>),
      next_student = 0,
      teacher_obj = (\<lambda>_. \<lparr>name = [], person_id = [], email = [], t_courses = []\<rparr>),
      next_teacher = 0,
      authority_obj = (\<lambda>_. \<lparr>name = [], person_id = [], email = []\<rparr>),
      next_authority = 0,
      course_obj = (\<lambda>_. \<lparr>course_code = [], course_name = [], credit = PyInt 0,
                            students = [], observers = []\<rparr>),
      next_course = 0,
      university_obj = (\<lambda>_. \<lparr>u_students = [], u_teachers = [], u_courses = []\<rparr>),
      next_university = 0,
      UniversitySystem_instance = None,
      stdout = []\<rparr>"

section \<open>Operations\<close>

definition py_print :: "string \<Rightarrow> state \<Rightarrow> state" where
  "py_print line st = st\<lparr>stdout := stdout st @ [line]\<rparr>"

subsection \<open>GPA strategy\<close>

definition RegularGPA_calculate :: "(string, py_num) dict \<Rightarrow> py_error + py_num" where
  "RegularGPA_calculate g =
     (if g = [] then Inr (PyFloat (Finite 0))
      else bind_err (py_sum (dict_values g)) (\<lambda>s. py_truediv s (PyInt (int (length g)))))"

text \<open>The base class's method is \<^verbatim>\<open>pass\<close>: it returns Python's \<^verbatim>\<open>None\<close>.\<close>

definition calculate :: "gpa_strategy \<Rightarrow> (string, py_num) dict \<Rightarrow> py_error + py_num option" where
  "calculate strat g =
     (case strat of
        GPAStrategy \<Rightarrow> Inr None
      | RegularGPA \<Rightarrow> map_sum id Some (RegularGPA_calculate g))"

subsection \<open>Person\<close>

definition Person_display_info :: "'a person_scheme \<Rightarrow> state \<Rightarrow> state" where
  "Person_display_info p st =
     py_print (''Name: '' @ name p @ '', ID: '' @ person_id p @ '', Email: '' @ email p) st"

subsection \<open>Student as notification sink\<close>

definition Student_update :: "sref \<Rightarrow> string \<Rightarrow> state \<Rightarrow> state" where
  "Student_update s message st =
     py_print (''[Notification - '' @ name (student_obj st s) @ '']: '' @ message) st"

subsection \<open>Course\<close>

definition Course_init :: "string \<Rightarrow> string \<Rightarrow> py_num \<Rightarrow> state \<Rightarrow> cref \<times> state" where
  "Course_init code nm cr st =
     (next_course st,
      st\<lparr>course_obj := (course_obj st)(next_course st :=
            \<lparr>course_code = code, course_name = nm, credit = cr,
             students = [], observers = []\<rparr>),
         next_course := Suc (next_course st)\<rparr>)"

definition Course_attach :: "cref \<Rightarrow> sref \<Rightarrow> state \<Rightarrow> state" where
  "Course_attach c observer st =
     (if observer \<notin> set (observers (course_obj st c))
      then st\<lparr>course_obj := (course_obj st)(c :=
                 (course_obj st c)\<lparr>observers := observers (course_obj st c) @ [observer]\<rparr>)\<rparr>
      else st)"

definition Course_notify :: "cref \<Rightarrow> string \<Rightarrow> state \<Rightarrow> state" where
  "Course_notify c message st =
     fold (\<lambda>obs. Student_update obs message) (observers (course_obj st c)) st"

definition Course_add_student :: "cref \<Rightarrow> sref \<Rightarrow> state \<Rightarrow> state" where
  "Course_add_student c s st =
     (if s \<notin> set (students (course_obj st c))
      then
        (let st1 = st\<lparr>course_obj := (course_obj st)(c :=
                      (course_obj st c)\<lparr>students := students (course_obj st c) @ [s]\<rparr>)\<rparr>;
             st2 = Course_attach c s st1
         in Course_notify c (''Enrolled in '' @ course_name (course_obj st2 c)) st2)
      else st)"

definition Course_remove_student :: "cref \<Rightarrow> sref \<Rightarrow> state \<Rightarrow> py_error + state" where
  "Course_remove_student c s st =
     (if s \<in> set (students (course_obj st c))
      then
        (case list_remove s (students (course_obj st c)) of
           Inl e \<Rightarrow> Inl e
         | Inr roster \<Rightarrow>
             (let st1 = st\<lparr>course_obj := (course_obj st)(c :=
                           (course_obj st c)\<lparr>students := roster\<rparr>)\<rparr>
              in Inr (Course_notify c (''Dropped from '' @ course_name (course_obj st1 c)) st1)))
      else Inr st)"

definition Course_view_students :: "cref \<Rightarrow> state \<Rightarrow> state" where
  "Course_view_students c st =
     fold (\<lambda>s acc. py_print (''- '' @ name (student_obj acc s)) acc)
          (students (course_obj st c))
          (py_print (''Students in '' @ course_name (course_obj st c) @ '':'') st)"

subsection \<open>Student\<close>

definition Student_init ::
  "string \<Rightarrow> string \<Rightarrow> string \<Rightarrow> gpa_strategy \<Rightarrow> state \<Rightarrow> sref \<times> state" where
  "Student_init nm sid em strat st =
     (next_student st,
      st\<lparr>student_obj := (student_obj st)(next_student st :=
            \<lparr>name = nm, person_id = sid, email = em,
             courses = [], grades = [], gpa_strategy = strat\<rparr>),
         next_student := Suc (next_student st)\<rparr>)"

definition Student_add_course :: "sref \<Rightarrow> cref \<Rightarrow> state \<Rightarrow> state" where
  "Student_add_course s c st =
     (if \<not> dict_contains (course_code (course_obj st c)) (courses (student_obj st s))
      then
        Course_add_student c s
          (st\<lparr>student_obj := (student_obj st)(s :=
                (student_obj st s)\<lparr>courses :=
                   AList.update (course_code (course_obj st c)) c (courses (student_obj st s))\<rparr>)\<rparr>)
      else py_print ''Already enrolled in this course'' st)"

definition Student_drop_course :: "sref \<Rightarrow> string \<Rightarrow> state \<Rightarrow> py_error + state" where
  "Student_drop_course s code st =
     (if dict_contains code (courses (student_obj st s))
      then
        (case dict_pop code (courses (student_obj st s)) of
           Inl e \<Rightarrow> Inl e
         | Inr (c, rest) \<Rightarrow>
             Course_remove_student c s
               (st\<lparr>student_obj := (student_obj st)(s :=
                     (student_obj st s)\<lparr>courses := rest\<rparr>)\<rparr>))
      else Inr (py_print ''Course not found'' st))"

definition Student_view_courses :: "sref \<Rightarrow> state \<Rightarrow> state" where
  "Student_view_courses s st =
     fold (\<lambda>c acc. py_print (''- '' @ course_name (course_obj acc c)) acc)
          (dict_values (courses (student_obj st s)))
          (py_print (name (student_obj st s) @ [CHR 0x27] @ ''s Courses:'') st)"

text \<open>
  \<open>str_num\<close> is Python's built-in formatting of a number inside an f-string or
  \<^verbatim>\<open>print\<close>; it is a parameter of every operation that prints a number.
\<close>

definition Student_view_grades :: "(py_num \<Rightarrow> string) \<Rightarrow> sref \<Rightarrow> state \<Rightarrow> state" where
  "Student_view_grades str_num s st =
     fold (\<lambda>(code, grade) acc. py_print (code @ '': '' @ str_num grade) acc)
          (grades (student_obj st s))
          (py_print ''Grades:'' st)"

definition Student_calculate_gpa :: "sref \<Rightarrow> state \<Rightarrow> py_error + py_num option" where
  "Student_calculate_gpa s st =
     calculate (gpa_strategy (student_obj st s)) (grades (student_obj st s))"

subsection \<open>Teacher\<close>

definition Teacher_init :: "string \<Rightarrow> string \<Rightarrow> string \<Rightarrow> state \<Rightarrow> tref \<times> state" where
  "Teacher_init nm tid em st =
     (next_teacher st,
      st\<lparr>teacher_obj := (teacher_obj st)(next_teacher st :=
            \<lparr>name = nm, person_id = tid, email = em, t_courses = []\<rparr>),
         next_teacher := Suc (next_teacher st)\<rparr>)"

definition Teacher_assign_course :: "tref \<Rightarrow> cref \<Rightarrow> state \<Rightarrow> state" where
  "Teacher_assign_course t c st =
     st\<lparr>teacher_obj := (teacher_obj st)(t :=
          (teacher_obj st t)\<lparr>t_courses := t_courses (teacher_obj st t) @ [c]\<rparr>)\<rparr>"

definition Teacher_assign_grade ::
  "(py_num \<Rightarrow> string) \<Rightarrow> tref \<Rightarrow> sref \<Rightarrow> string \<Rightarrow> py_num \<Rightarrow> state \<Rightarrow> state" where
  "Teacher_assign_grade str_num t s code grade st =
     (if dict_contains code (courses (student_obj st s))
      then
        Student_update s (''Grade '' @ str_num grade @ '' assigned for '' @ code)
          (st\<lparr>student_obj := (student_obj st)(s :=
                (student_obj st s)\<lparr>grades := AList.update code grade (grades (student_obj st s))\<rparr>)\<rparr>)
      else py_print ''Student not enrolled in this course'' st)"

definition Teacher_view_courses :: "tref \<Rightarrow> state \<Rightarrow> state" where
  "Teacher_view_courses t st =
     fold (\<lambda>c acc. py_print (''- '' @ course_name (course_obj acc c)) acc)
          (t_courses (teacher_obj st t))
          (py_print (name (teacher_obj st t) @ '' teaches:'') st)"

subsection \<open>Authority\<close>

definition Authority_init :: "string \<Rightarrow> string \<Rightarrow> string \<Rightarrow> state \<Rightarrow> aref \<times> state" where
  "Authority_init nm aid em st =
     (next_authority st,
      st\<lparr>authority_obj := (authority_obj st)(next_authority st :=
            \<lparr>name = nm, person_id = aid, email = em\<rparr>),
         next_authority := Suc (next_authority st)\<rparr>)"

definition Authority_create_course ::
  "aref \<Rightarrow> string \<Rightarrow> string \<Rightarrow> py_num \<Rightarrow> state \<Rightarrow> cref \<times> state" where
  "Authority_create_course a code nm cr st = Course_init code nm cr st"

subsection \<open>User factory\<close>

definition create_user ::
  "string \<Rightarrow> string \<Rightarrow> string \<Rightarrow> string \<Rightarrow> state \<Rightarrow> py_error + (user_ref \<times> state)" where
  "create_user role nm uid em st =
     (if role = ''student'' then
        (case Student_init nm uid em RegularGPA st of (r, st') \<Rightarrow> Inr (StudentRef r, st'))
      else if role = ''teacher'' then
        (case Teacher_init nm uid em st of (r, st') \<Rightarrow> Inr (TeacherRef r, st'))
      else if role = ''authority'' then
        (case Authority_init nm uid em st of (r, st') \<Rightarrow> Inr (AuthorityRef r, st'))
      else Inl (ValueError ''Invalid user role''))"

subsection \<open>University registry\<close>

definition UniversitySystem_new :: "state \<Rightarrow> uref \<times> state" where
  "UniversitySystem_new st =
     (case UniversitySystem_instance st of
        None \<Rightarrow>
          (next_university st,
           st\<lparr>university_obj := (university_obj st)(next_university st :=
                 \<lparr>u_students = [], u_teachers = [], u_courses = []\<rparr>),
              next_university := Suc (next_university st),
              UniversitySystem_instance := Some (next_university st)\<rparr>)
      | Some u \<Rightarrow> (u, st))"

definition add_student :: "uref \<Rightarrow> sref \<Rightarrow> state \<Rightarrow> state" where
  "add_student u s st =
     st\<lparr>university_obj := (university_obj st)(u :=
          (university_obj st u)\<lparr>u_students :=
             AList.update (person_id (student_obj st s)) s (u_students (university_obj st u))\<rparr>)\<rparr>"

definition remove_student :: "uref \<Rightarrow> string \<Rightarrow> state \<Rightarrow> state" where
  "remove_student u student_id st =
     st\<lparr>university_obj := (university_obj st)(u :=
          (university_obj st u)\<lparr>u_students :=
             AList.delete student_id (u_students (university_obj st u))\<rparr>)\<rparr>"

definition add_teacher :: "uref \<Rightarrow> tref \<Rightarrow> state \<Rightarrow> state" where
  "add_teacher u t st =
     st\<lparr>university_obj := (university_obj st)(u :=
          (university_obj st u)\<lparr>u_teachers :=
             AList.update (person_id (teacher_obj st t)) t (u_teachers (university_obj st u))\<rparr>)\<rparr>"

definition remove_teacher :: "uref \<Rightarrow> string \<Rightarrow> state \<Rightarrow> state" where
  "remove_teacher u teacher_id st =
     st\<lparr>university_obj := (university_obj st)(u :=
          (university_obj st u)\<lparr>u_teachers :=
             AList.delete teacher_id (u_teachers (university_obj st u))\<rparr>)\<rparr>"

definition add_course :: "uref \<Rightarrow> cref \<Rightarrow> state \<Rightarrow> state" where
  "add_course u c st =
     st\<lparr>university_obj := (university_obj st)(u :=
          (university_obj st u)\<lparr>u_courses :=
             AList.update (course_code (course_obj st c)) c (u_courses (university_obj st u))\<rparr>)\<rparr>"

definition remove_course :: "uref \<Rightarrow> string \<Rightarrow> state \<Rightarrow> state" where
  "remove_course u code st =
     st\<lparr>university_obj := (university_obj st)(u :=
          (university_obj st u)\<lparr>u_courses :=
             AList.delete code (u_courses (university_obj st u))\<rparr>)\<rparr>"

definition list_students :: "uref \<Rightarrow> state \<Rightarrow> state" where
  "list_students u st =
     fold (\<lambda>s acc. py_print (''- '' @ name (student_obj acc s) @ '' ('' @
                              person_id (student_obj acc s) @ '')'') acc)
          (dict_values (u_students (university_obj st u)))
          (py_print ''Students:'' st)"

definition list_teachers :: "uref \<Rightarrow> state \<Rightarrow> state" where
  "list_teachers u st =
     fold (\<lambda>t acc. py_print (''- '' @ name (teacher_obj acc t) @ '' ('' @
                              person_id (teacher_obj acc t) @ '')'') acc)
          (dict_values (u_teachers (university_obj st u)))
          (py_print ''Teachers:'' st)"

definition list_courses :: "uref \<Rightarrow> state \<Rightarrow> state" where
  "list_courses u st =
     fold (\<lambda>c acc. py_print (''- '' @ course_name (course_obj acc c) @ '' ('' @
                              course_code (course_obj acc c) @ '')'') acc)
          (dict_values (u_courses (university_obj st u)))
          (py_print ''Courses:'' st)"

subsection \<open>The demonstration entry point\<close>

definition str_gpa :: "(py_num \<Rightarrow> string) \<Rightarrow> py_num option \<Rightarrow> string" where
  "str_gpa str_num g = (case g of None \<Rightarrow> ''None'' | Some x \<Rightarrow> str_num x)"

text \<open>
  The body under \<^verbatim>\<open>if __name__ == "__main__"\<close>, in two parts: \<open>main\<close>
  builds the registry and the three users, \<open>main_body\<close> is the rest of the script
  on the references obtained. The factory object is stateless. The three
  \<^verbatim>\<open>create_user\<close> results are used as an authority, a student and a teacher; any
  other class at these places would be an \<^verbatim>\<open>AttributeError\<close>.
\<close>

definition main_body ::
  "(py_num \<Rightarrow> string) \<Rightarrow> uref \<Rightarrow> aref \<Rightarrow> sref \<Rightarrow> tref \<Rightarrow> state \<Rightarrow> py_error + state" where
  "main_body str_num uni admin student1 teacher1 st4 =
     (let st5 = add_student uni student1 st4;
          st6 = add_teacher uni teacher1 st5;
          (cse101, st7) = Authority_create_course admin ''CSE110'' ''Intro to Programming'' (PyInt 3) st6;
          st8 = add_course uni cse101 st7;
          st9 = Teacher_assign_course teacher1 cse101 st8;
          st10 = Student_add_course student1 cse101 st9;
          st11 = Teacher_assign_grade str_num teacher1 student1 ''CSE101'' (PyFloat (Finite 4)) st10;
          st12 = Student_view_courses student1 st11;
          st13 = Student_view_grades str_num student1 st12
      in bind_err (Student_calculate_gpa student1 st13) (\<lambda>gpa.
           (let st14 = py_print (''GPA: '' @ str_gpa str_num gpa) st13;
                st15 = Course_view_students cse101 st14;
                st16 = list_students uni st15;
                st17 = list_courses uni st16
            in Inr (list_teachers uni st17))))"

definition main :: "(py_num \<Rightarrow> string) \<Rightarrow> state \<Rightarrow> py_error + state" where
  "main str_num st0 =
     (let (uni, st1) = UniversitySystem_new st0 in
      bind_err (create_user ''authority'' ''Registrar'' ''A01'' ''admin@uni.edu'' st1)
        (\<lambda>(admin, st2).
      bind_err (create_user ''student'' ''MS Dhoni'' ''S01'' ''msdhoni7@uni.edu'' st2)
        (\<lambda>(student1, st3).
      bind_err (create_user ''teacher'' ''Goutam Gambhir'' ''T01'' ''gg5@uni.edu'' st3)
        (\<lambda>(teacher1, st4).
      (case (admin, student1, teacher1) of
         (AuthorityRef a, StudentRef s, TeacherRef t) \<Rightarrow> main_body str_num uni a s t st4
       | _ \<Rightarrow> Inl (AttributeError ''object has no such attribute''))))))"

section \<open>The public interface as a transition system\<close>

text \<open>
  Every constructor and method of the program is a \<open>call\<close>; \<open>exec\<close> runs one
  call on a state and keeps the resulting state (or the exception). A call is valid
  when the references it passes were allocated. The reachable states are those the
  program can be in after any sequence of valid calls from the empty store.
\<close>

datatype call =
    StudentInit string string string gpa_strategy
  | TeacherInit string string string
  | AuthorityInit string string string
  | CourseInit string string py_num
  | CreateUser string string string string
  | UniversitySystemNew
  | RegularGPACalculate "(string, py_num) dict"
  | CourseAttach cref sref
  | CourseNotify cref string
  | CourseAddStudent cref sref
  | CourseRemoveStudent cref sref
  | CourseViewStudents cref
  | StudentAddCourse sref cref
  | StudentDropCourse sref string
  | StudentUpdate sref string
  | StudentViewCourses sref
  | StudentViewGrades sref
  | StudentCalculateGpa sref
  | StudentDisplayInfo sref
  | TeacherAssignCourse tref cref
  | TeacherAssignGrade tref sref string py_num
  | TeacherViewCourses tref
  | TeacherDisplayInfo tref
  | AuthorityCreateCourse aref string string py_num
  | AuthorityDisplayInfo aref
  | AddStudent uref sref
  | RemoveStudent uref string
  | AddTeacher uref tref
  | RemoveTeacher uref string
  | AddCourse uref cref
  | RemoveCourse uref string
  | ListStudents uref
  | ListTeachers uref
  | ListCourses uref

primrec exec :: "(py_num \<Rightarrow> string) \<Rightarrow> call \<Rightarrow> state \<Rightarrow> py_error + state" where
  "exec f (StudentInit n i e g) st = Inr (snd (Student_init n i e g st))"
| "exec f (TeacherInit n i e) st = Inr (snd (Teacher_init n i e st))"
| "exec f (AuthorityInit n i e) st = Inr (snd (Authority_init n i e st))"
| "exec f (CourseInit c n cr) st = Inr (snd (Course_init c n cr st))"
| "exec f (CreateUser r n i e) st = map_sum id snd (create_user r n i e st)"
| "exec f UniversitySystemNew st = Inr (snd (UniversitySystem_new st))"
| "exec f (RegularGPACalculate g) st = map_sum id (\<lambda>_. st) (RegularGPA_calculate g)"
| "exec f (CourseAttach c s) st = Inr (Course_attach c s st)"
| "exec f (CourseNotify c m) st = Inr (Course_notify c m st)"
| "exec f (CourseAddStudent c s) st = Inr (Course_add_student c s st)"
| "exec f (CourseRemoveStudent c s) st = Course_remove_student c s st"
| "exec f (CourseViewStudents c) st = Inr (Course_view_students c st)"
| "exec f (StudentAddCourse s c) st = Inr (Student_add_course s c st)"
| "exec f (StudentDropCourse s k) st = Student_drop_course s k st"
| "exec f (StudentUpdate s m) st = Inr (Student_update s m st)"
| "exec f (StudentViewCourses s) st = Inr (Student_view_courses s st)"
| "exec f (StudentViewGrades s) st = Inr (Student_view_grades f s st)"
| "exec f (StudentCalculateGpa s) st = map_sum id (\<lambda>_. st) (Student_calculate_gpa s st)"
| "exec f (StudentDisplayInfo s) st = Inr (Person_display_info (student_obj st s) st)"
| "exec f (TeacherAssignCourse t c) st = Inr (Teacher_assign_course t c st)"
| "exec f (TeacherAssignGrade t s k g) st = Inr (Teacher_assign_grade f t s k g st)"
| "exec f (TeacherViewCourses t) st = Inr (Teacher_view_courses t st)"
| "exec f (TeacherDisplayInfo t) st = Inr (Person_display_info (teacher_obj st t) st)"
| "exec f (AuthorityCreateCourse a c n cr) st = Inr (snd (Authority_create_course a c n cr st))"
| "exec f (AuthorityDisplayInfo a) st = Inr (Person_display_info (authority_obj st a) st)"
| "exec f (AddStudent u s) st = Inr (add_student u s st)"
| "exec f (RemoveStudent u k) st = Inr (remove_student u k st)"
| "exec f (AddTeacher u t) st = Inr (add_teacher u t st)"
| "exec f (RemoveTeacher u k) st = Inr (remove_teacher u k st)"
| "exec f (AddCourse u c) st = Inr (add_course u c st)"
| "exec f (RemoveCourse u k) st = Inr (remove_course u k st)"
| "exec f (ListStudents u) st = Inr (list_students u st)"
| "exec f (ListTeachers u) st = Inr (list_teachers u st)"
| "exec f (ListCourses u) st = Inr (list_courses u st)"

primrec valid_call :: "call \<Rightarrow> state \<Rightarrow> bool" where
  "valid_call (StudentInit n i e g) st = True"
| "valid_call (TeacherInit n i e) st = True"
| "valid_call (AuthorityInit n i e) st = True"
| "valid_call (CourseInit c n cr) st = True"
| "valid_call (CreateUser r n i e) st = True"
| "valid_call UniversitySystemNew st = True"
| "valid_call (RegularGPACalculate g) st = True"
| "valid_call (CourseAttach c s) st = (c < next_course st \<and> s < next_student st)"
| "valid_call (CourseNotify c m) st = (c < next_course st)"
| "valid_call (CourseAddStudent c s) st = (c < next_course st \<and> s < next_student st)"
| "valid_call (CourseRemoveStudent c s) st = (c < next_course st \<and> s < next_student st)"
| "valid_call (CourseViewStudents c) st = (c < next_course st)"
| "valid_call (StudentAddCourse s c) st = (s < next_student st \<and> c < next_course st)"
| "valid_call (StudentDropCourse s k) st = (s < next_student st)"
| "valid_call (StudentUpdate s m) st = (s < next_student st)"
| "valid_call (StudentViewCourses s) st = (s < next_student st)"
| "valid_call (StudentViewGrades s) st = (s < next_student st)"
| "valid_call (StudentCalculateGpa s) st = (s < next_student st)"
| "valid_call (StudentDisplayInfo s) st = (s < next_student st)"
| "valid_call (TeacherAssignCourse t c) st = (t < next_teacher st \<and> c < next_course st)"
| "valid_call (TeacherAssignGrade t s k g) st = (t < next_teacher st \<and> s < next_student st)"
| "valid_call (TeacherViewCourses t) st = (t < next_teacher st)"
| "valid_call (TeacherDisplayInfo t) st = (t < next_teacher st)"
| "valid_call (AuthorityCreateCourse a c n cr) st = (a < next_authority st)"
| "valid_call (AuthorityDisplayInfo a) st = (a < next_authority st)"
| "valid_call (AddStudent u s) st = (u < next_university st \<and> s < next_student st)"
| "valid_call (RemoveStudent u k) st = (u < next_university st)"
| "valid_call (AddTeacher u t) st = (u < next_university st \<and> t < next_teacher st)"
| "valid_call (RemoveTeacher u k) st = (u < next_university st)"
| "valid_call (AddCourse u c) st = (u < next_university st \<and> c < next_course st)"
| "valid_call (RemoveCourse u k) st = (u < next_university st)"
| "valid_call (ListStudents u) st = (u < next_university st)"
| "valid_call (ListTeachers u) st = (u < next_university st)"
| "valid_call (ListCourses u) st = (u < next_university st)"

inductive reachable :: "(py_num \<Rightarrow> string) \<Rightarrow> state \<Rightarrow> bool" for f :: "py_num \<Rightarrow> string" where
  reachable_init: "reachable f init_state"
| reachable_step:
    "reachable f st \<Longrightarrow> valid_call c st \<Longrightarrow> exec f c st = Inr st' \<Longrightarrow> reachable f st'"

fun exec_all :: "(py_num \<Rightarrow> string) \<Rightarrow> call list \<Rightarrow> state \<Rightarrow> py_error + state" where
  "exec_all f [] st = Inr st"
| "exec_all f (c # cs) st =
     (case exec f c st of Inl e \<Rightarrow> Inl e | Inr st' \<Rightarrow> exec_all f cs st')"

text \<open>Every call of a run is valid in the state it starts from.\<close>

fun valid_all :: "(py_num \<Rightarrow> string) \<Rightarrow> call list \<Rightarrow> state \<Rightarrow> bool" where
  "valid_all f [] st = True"
| "valid_all f (c # cs) st =
     (valid_call c st \<and>
      (case exec f c st of Inl e \<Rightarrow> True | Inr st' \<Rightarrow> valid_all f cs st'))"

section \<open>State invariants\<close>

definition roster_ok :: "state \<Rightarrow> bool" where
  "roster_ok st \<longleftrightarrow>
     (\<forall>c. distinct (students (course_obj st c)) \<and>
          set (students (course_obj st c)) \<subseteq> set (observers (course_obj st c)))"

definition enrolled_ok :: "state \<Rightarrow> bool" where
  "enrolled_ok st \<longleftrightarrow>
     (\<forall>s. distinct (map fst (courses (student_obj st s))) \<and>
          (\<forall>(k, c) \<in> set (courses (student_obj st s)).
              c < next_course st \<and> course_code (course_obj st c) = k))"

definition registry_ok :: "state \<Rightarrow> bool" where
  "registry_ok st \<longleftrightarrow>
     (\<forall>u. distinct (map fst (u_students (university_obj st u))) \<and>
          distinct (map fst (u_teachers (university_obj st u))) \<and>
          distinct (map fst (u_courses (university_obj st u))) \<and>
          (\<forall>(k, s) \<in> set (u_students (university_obj st u)).
              s < next_student st \<and> person_id (student_obj st s) = k) \<and>
          (\<forall>(k, t) \<in> set (u_teachers (university_obj st u)).
              t < next_teacher st \<and> person_id (teacher_obj st t) = k) \<and>
          (\<forall>(k, c) \<in> set (u_courses (university_obj st u)).
              c < next_course st \<and> course_code (course_obj st c) = k))"

definition wf_state :: "state \<Rightarrow> bool" where
  "wf_state st \<longleftrightarrow> roster_ok st \<and> enrolled_ok st \<and> registry_ok st"

text \<open>
  Membership agreement between the two sides of enrollment: a student is on a
  course's roster exactly when the course is a value of the student's mapping.
\<close>

definition agree :: "state \<Rightarrow> bool" where
  "agree st \<longleftrightarrow>
     (\<forall>s c. s \<in> set (students (course_obj st c)) \<longleftrightarrow>
            c \<in> set (dict_values (courses (student_obj st s))))"

section \<open>Concrete states and auxiliary notions\<close>





text \<open>The line a student prints when it receives \<open>message\<close>.\<close>

definition notification :: "state \<Rightarrow> string \<Rightarrow> sref \<Rightarrow> string" where
  "notification st message s = ''[Notification - '' @ name (student_obj st s) @ '']: '' @ message"

text \<open>
  A formatter for the two numbers the demonstration can print, used where a closed
  statement needs a concrete \<open>str_num\<close>.
\<close>

definition str_num_demo :: "py_num \<Rightarrow> string" where
  "str_num_demo r =
     (if r = PyFloat (Finite 0) then ''0.0'' else if r = PyFloat (Finite 4) then ''4.0''
      else ''?'')"

text \<open>One student enrolled, through \<^verbatim>\<open>Student.add_course\<close>, in one course.\<close>

definition demo_enrolled :: state where
  "demo_enrolled =
     Student_add_course 0 0
       (snd (Course_init ''CSE110'' ''Intro to Programming'' (PyInt 3)
         (snd (Student_init ''MS Dhoni'' ''S01'' ''msdhoni7@uni.edu'' RegularGPA init_state))))"

text \<open>One student and one course, not enrolled.\<close>

definition demo_created :: state where
  "demo_created =
     snd (Course_init ''CSE110'' ''Intro to Programming'' (PyInt 3)
       (snd (Student_init ''MS Dhoni'' ''S01'' ''msdhoni7@uni.edu'' RegularGPA init_state)))"

text \<open>The same student put on the roster by a direct \<^verbatim>\<open>Course.add_student\<close>.\<close>

definition demo_one_sided :: state where
  "demo_one_sided = Course_add_student 0 0 demo_created"

text \<open>One student and the registry, and the student registered in it.\<close>

definition demo_student :: state where
  "demo_student =
     snd (Student_init ''MS Dhoni'' ''S01'' ''msdhoni7@uni.edu'' RegularGPA init_state)"

definition demo_university :: state where
  "demo_university = snd (UniversitySystem_new demo_student)"

definition demo_registered :: state where
  "demo_registered = add_student 0 0 demo_university"

text \<open>The state in which the demonstration ends, with everything it has printed.\<close>

definition demo_final :: "(py_num \<Rightarrow> string) \<Rightarrow> state" where
  "demo_final str_num =
     \<lparr>student_obj =
        (\<lambda>_. \<lparr>name = [], person_id = [], email = [], courses = [],
                grades = [], gpa_strategy = GPAStrategy\<rparr>)
        (0 := \<lparr>name = ''MS Dhoni'', person_id = ''S01'',
                 email = ''msdhoni7@uni.edu'', courses = [(''CSE110'', 0)],
                 grades = [], gpa_strategy = RegularGPA\<rparr>),
      next_student = Suc 0,
      teacher_obj =
        (\<lambda>_. \<lparr>name = [], person_id = [], email = [], t_courses = []\<rparr>)
        (0 := \<lparr>name = ''Goutam Gambhir'', person_id = ''T01'',
                 email = ''gg5@uni.edu'', t_courses = [0]\<rparr>),
      next_teacher = Suc 0,
      authority_obj =
        (\<lambda>_. \<lparr>name = [], person_id = [], email = []\<rparr>)
        (0 := \<lparr>name = ''Registrar'', person_id = ''A01'', email = ''admin@uni.edu''\<rparr>),
      next_authority = Suc 0,
      course_obj =
        (\<lambda>_. \<lparr>course_code = [], course_name = [], credit = PyInt 0,
                students = [], observers = []\<rparr>)
        (0 := \<lparr>course_code = ''CSE110'', course_name = ''Intro to Programming'',
                 credit = PyInt 3, students = [0], observers = [0]\<rparr>),
      next_course = Suc 0,
      university_obj =
        (\<lambda>_. \<lparr>u_students = [], u_teachers = [], u_courses = []\<rparr>)
        (0 := \<lparr>u_students = [(''S01'', 0)], u_teachers = [(''T01'', 0)],
                 u_courses = [(''CSE110'', 0)]\<rparr>),
      next_university = Suc 0,
      UniversitySystem_instance = Some 0,
      stdout =
        [''[Notification - MS Dhoni]: Enrolled in Intro to Programming'',
         ''Student not enrolled in this course'',
         ''MS Dhoni'' @ [CHR 0x27] @ ''s Courses:'',
         ''- Intro to Programming'',
         ''Grades:'',
         ''GPA: '' @ str_num (PyFloat (Finite 0)),
         ''Students in Intro to Programming:'',
         ''- MS Dhoni'',
         ''Students:'',
         ''- MS Dhoni (S01)'',
         ''Courses:'',
         ''- Intro to Programming (CSE110)'',
         ''Teachers:'',
         ''- Goutam Gambhir (T01)'']\<rparr>"

text \<open>
  A registry holding one student, one teacher and one course, and a second student,
  teacher and course created with the same id or code but not registered.
\<close>

definition demo_duplicates :: state where
  "demo_duplicates =
     snd (Course_init ''CSE110'' ''Programming Lab'' (PyInt 1)
       (snd (Teacher_init ''Rahul Dravid'' ''T01'' ''rd19@uni.edu''
         (snd (Student_init ''Virat Kohli'' ''S01'' ''vk18@uni.edu'' RegularGPA
           (add_course 0 0 (add_teacher 0 0 (add_student 0 0
             (snd (Course_init ''CSE110'' ''Intro to Programming'' (PyInt 3)
               (snd (Teacher_init ''Goutam Gambhir'' ''T01'' ''gg5@uni.edu''
                 (snd (Student_init ''MS Dhoni'' ''S01'' ''msdhoni7@uni.edu'' RegularGPA
                   (snd (UniversitySystem_new init_state))))))))))))))))"

definition demo_duplicates_calls :: "call list" where
  "demo_duplicates_calls =
     [UniversitySystemNew,
      StudentInit ''MS Dhoni'' ''S01'' ''msdhoni7@uni.edu'' RegularGPA,
      TeacherInit ''Goutam Gambhir'' ''T01'' ''gg5@uni.edu'',
      CourseInit ''CSE110'' ''Intro to Programming'' (PyInt 3),
      AddStudent 0 0, AddTeacher 0 0, AddCourse 0 0,
      StudentInit ''Virat Kohli'' ''S01'' ''vk18@uni.edu'' RegularGPA,
      TeacherInit ''Rahul Dravid'' ''T01'' ''rd19@uni.edu'',
      CourseInit ''CSE110'' ''Programming Lab'' (PyInt 1)]"

text \<open>The demonstration's final state, with a second student created under the id "S01".\<close>

definition demo_replaced :: state where
  "demo_replaced =
     snd (Student_init ''Virat Kohli'' ''S01'' ''vk18@uni.edu'' RegularGPA
            (demo_final str_num_demo))"

text \<open>
  \<open>frame st st'\<close>: going from \<open>st\<close> to \<open>st'\<close> allocates nothing, leaves the
  registry and the singleton slot alone and changes no identifier or course code.
\<close>

definition frame :: "state \<Rightarrow> state \<Rightarrow> bool" where
  "frame st st' \<longleftrightarrow>
     next_student st' = next_student st \<and>
     next_teacher st' = next_teacher st \<and>
     next_authority st' = next_authority st \<and>
     next_course st' = next_course st \<and>
     next_university st' = next_university st \<and>
     UniversitySystem_instance st' = UniversitySystem_instance st \<and>
     university_obj st' = university_obj st \<and>
     authority_obj st' = authority_obj st \<and>
     (\<forall>s. person_id (student_obj st' s) = person_id (student_obj st s)) \<and>
     (\<forall>t. person_id (teacher_obj st' t) = person_id (teacher_obj st t)) \<and>
     (\<forall>c. course_code (course_obj st' c) = course_code (course_obj st c))"

section \<open>Effects of the operations\<close>

lemma fold_Student_update:
  "fold (\<lambda>obs. Student_update obs m) xs st =
     st\<lparr>stdout := stdout st @ map (notification st m) xs\<rparr>"
  by (induction xs arbitrary: st) (simp_all add: Student_update_def py_print_def notification_def)

lemma Course_notify_effect:
  "Course_notify c m st =
     st\<lparr>stdout := stdout st @ map (notification st m) (observers (course_obj st c))\<rparr>"
  by (simp add: Course_notify_def fold_Student_update)

lemma Course_add_student_effect:
  "s \<notin> set (students (course_obj st c)) \<Longrightarrow>
   Course_add_student c s st =
     st\<lparr>course_obj := (course_obj st)(c := (course_obj st c)
            \<lparr>students := students (course_obj st c) @ [s],
             observers := (if s \<in> set (observers (course_obj st c))
                           then observers (course_obj st c)
                           else observers (course_obj st c) @ [s])\<rparr>),
        stdout := stdout st @
          map (notification st (''Enrolled in '' @ course_name (course_obj st c)))
              (if s \<in> set (observers (course_obj st c))
               then observers (course_obj st c)
               else observers (course_obj st c) @ [s])\<rparr>"
  by (simp add: Course_add_student_def Course_attach_def Course_notify_effect Let_def
        notification_def)

lemma Course_add_student_noop:
  "s \<in> set (students (course_obj st c)) \<Longrightarrow> Course_add_student c s st = st"
  by (simp add: Course_add_student_def)

lemma Course_remove_student_effect:
  "s \<in> set (students (course_obj st c)) \<Longrightarrow>
   Course_remove_student c s st =
     Inr (st\<lparr>course_obj := (course_obj st)(c := (course_obj st c)
                 \<lparr>students := remove1 s (students (course_obj st c))\<rparr>),
             stdout := stdout st @
               map (notification st (''Dropped from '' @ course_name (course_obj st c)))
                   (observers (course_obj st c))\<rparr>)"
  by (simp add: Course_remove_student_def list_remove_def Course_notify_effect Let_def
        notification_def)

lemma Course_remove_student_noop:
  "s \<notin> set (students (course_obj st c)) \<Longrightarrow> Course_remove_student c s st = Inr st"
  by (simp add: Course_remove_student_def)

lemma Student_add_course_noop:
  "dict_contains (course_code (course_obj st c)) (courses (student_obj st s)) \<Longrightarrow>
   Student_add_course s c st = st\<lparr>stdout := stdout st @ [''Already enrolled in this course'']\<rparr>"
  by (simp add: Student_add_course_def py_print_def)

lemma Student_add_course_enrolled:
  "dict_contains (course_code (course_obj (Student_add_course s c st) c))
     (courses (student_obj (Student_add_course s c st) s))"
proof (cases "dict_contains (course_code (course_obj st c)) (courses (student_obj st s))")
  case True
  then show ?thesis by (simp add: Student_add_course_noop)
next
  case False
  then show ?thesis
    by (cases "s \<in> set (students (course_obj st c))")
       (simp_all add: Student_add_course_def Course_add_student_effect Course_add_student_noop
          dict_contains_def dom_update)
qed

lemma Course_add_student_on_roster:
  "s \<in> set (students (course_obj (Course_add_student c s st) c))"
  by (cases "s \<in> set (students (course_obj st c))")
     (simp_all add: Course_add_student_effect Course_add_student_noop)

lemma demo_enrolled_eval:
  "courses (student_obj demo_enrolled 0) = [(''CSE110'', 0)]"
  "grades (student_obj demo_enrolled 0) = []"
  "gpa_strategy (student_obj demo_enrolled 0) = RegularGPA"
  "name (student_obj demo_enrolled 0) = ''MS Dhoni''"
  "students (course_obj demo_enrolled 0) = [0]"
  "observers (course_obj demo_enrolled 0) = [0]"
  "course_code (course_obj demo_enrolled 0) = ''CSE110''"
  "course_name (course_obj demo_enrolled 0) = ''Intro to Programming''"
  "stdout demo_enrolled = [''[Notification - MS Dhoni]: Enrolled in Intro to Programming'']"
  "next_student demo_enrolled = 1"
  "next_course demo_enrolled = 1"
  by (simp_all add: demo_enrolled_def Student_add_course_def Course_add_student_def
        Course_attach_def Course_notify_def Student_update_def py_print_def Course_init_def
        Student_init_def init_state_def dict_contains_def)

lemmas run_defs = add_student_def add_teacher_def add_course_def Authority_create_course_def
  Course_init_def Teacher_assign_course_def Student_add_course_def Course_add_student_def
  Course_attach_def Course_notify_def Student_update_def py_print_def Teacher_assign_grade_def
  Student_view_courses_def Student_view_grades_def Student_calculate_gpa_def calculate_def
  RegularGPA_calculate_def Course_view_students_def list_students_def list_courses_def
  list_teachers_def dict_contains_def dict_values_def str_gpa_def bind_err_def

lemma main_prefix:
  "main f init_state = main_body f 0 0 0 0
     (snd (Teacher_init ''Goutam Gambhir'' ''T01'' ''gg5@uni.edu''
       (snd (Student_init ''MS Dhoni'' ''S01'' ''msdhoni7@uni.edu'' RegularGPA
         (snd (Authority_init ''Registrar'' ''A01'' ''admin@uni.edu''
           (snd (UniversitySystem_new init_state))))))))"
  by (simp add: main_def UniversitySystem_new_def init_state_def create_user_def
        Authority_init_def Student_init_def Teacher_init_def bind_err_def)

lemma main_run: "main f init_state = Inr (demo_final f)"
  unfolding main_prefix
  apply (simp only: main_body_def Let_def case_prod_beta)
  apply (simp add: run_defs UniversitySystem_new_def init_state_def
        Authority_init_def Student_init_def Teacher_init_def demo_final_def)
  done

subsection \<open>Association lists\<close>

lemma set_update_subset: "set (AList.update k v al) \<subseteq> insert (k, v) (set al)"
  by (induction al) auto

lemma set_update_distinct:
  "distinct (map fst al) \<Longrightarrow>
   set (AList.update k v al) = insert (k, v) {p \<in> set al. fst p \<noteq> k}"
  by (induction al) (auto simp: rev_image_eqI)

lemma set_delete: "set (AList.delete k al) = {p \<in> set al. fst p \<noteq> k}"
  by (auto simp: AList.delete_eq)

lemma length_update_present:
  "k \<in> set (map fst al) \<Longrightarrow> length (AList.update k v al) = length al"
  by (induction al) auto

subsection \<open>Operations that only print\<close>

lemma fold_print:
  assumes "\<And>x a out. g (a\<lparr>stdout := out\<rparr>) x = g a x"
  shows "fold (\<lambda>x acc. py_print (g acc x) acc) xs st = st\<lparr>stdout := stdout st @ map (g st) xs\<rparr>"
proof (induction xs arbitrary: st)
  case Nil
  show ?case by simp
next
  case (Cons x xs)
  have "fold (\<lambda>x acc. py_print (g acc x) acc) xs (py_print (g st x) st) =
          (py_print (g st x) st)\<lparr>stdout := stdout (py_print (g st x) st) @
             map (g (py_print (g st x) st)) xs\<rparr>"
    by (rule Cons.IH)
  then show ?case by (simp add: py_print_def assms)
qed

lemma Course_view_students_effect:
  "Course_view_students c st =
     st\<lparr>stdout := stdout st @ (''Students in '' @ course_name (course_obj st c) @ '':'') #
        map (\<lambda>s. ''- '' @ name (student_obj st s)) (students (course_obj st c))\<rparr>"
  unfolding Course_view_students_def
  by (subst fold_print) (simp_all add: py_print_def)

lemma Student_view_courses_effect:
  "Student_view_courses s st =
     st\<lparr>stdout := stdout st @ (name (student_obj st s) @ [CHR 0x27] @ ''s Courses:'') #
        map (\<lambda>c. ''- '' @ course_name (course_obj st c)) (dict_values (courses (student_obj st s)))\<rparr>"
  unfolding Student_view_courses_def
  by (subst fold_print) (simp_all add: py_print_def)

lemma Student_view_grades_effect:
  "Student_view_grades f s st =
     st\<lparr>stdout := stdout st @ ''Grades:'' #
        map (\<lambda>p. fst p @ '': '' @ f (snd p)) (grades (student_obj st s))\<rparr>"
  unfolding Student_view_grades_def case_prod_beta
  by (subst fold_print [where g = "\<lambda>acc p. fst p @ '': '' @ f (snd p)"]) (simp_all add: py_print_def)

lemma Teacher_view_courses_effect:
  "Teacher_view_courses t st =
     st\<lparr>stdout := stdout st @ (name (teacher_obj st t) @ '' teaches:'') #
        map (\<lambda>c. ''- '' @ course_name (course_obj st c)) (t_courses (teacher_obj st t))\<rparr>"
  unfolding Teacher_view_courses_def
  by (subst fold_print) (simp_all add: py_print_def)

lemma list_students_effect:
  "list_students u st =
     st\<lparr>stdout := stdout st @ ''Students:'' #
        map (\<lambda>s. ''- '' @ name (student_obj st s) @ '' ('' @ person_id (student_obj st s) @ '')'')
            (dict_values (u_students (university_obj st u)))\<rparr>"
  unfolding list_students_def
  by (subst fold_print) (simp_all add: py_print_def)

lemma list_teachers_effect:
  "list_teachers u st =
     st\<lparr>stdout := stdout st @ ''Teachers:'' #
        map (\<lambda>t. ''- '' @ name (teacher_obj st t) @ '' ('' @ person_id (teacher_obj st t) @ '')'')
            (dict_values (u_teachers (university_obj st u)))\<rparr>"
  unfolding list_teachers_def
  by (subst fold_print) (simp_all add: py_print_def)

lemma list_courses_effect:
  "list_courses u st =
     st\<lparr>stdout := stdout st @ ''Courses:'' #
        map (\<lambda>c. ''- '' @ course_name (course_obj st c) @ '' ('' @ course_code (course_obj st c) @ '')'')
            (dict_values (u_courses (university_obj st u)))\<rparr>"
  unfolding list_courses_def
  by (subst fold_print) (simp_all add: py_print_def)

lemmas print_effects = Course_notify_effect Course_view_students_effect Student_view_courses_effect
  Student_view_grades_effect Teacher_view_courses_effect list_students_effect list_teachers_effect
  list_courses_effect Student_update_def Person_display_info_def py_print_def

subsection \<open>Invariants ignore the output\<close>

lemma roster_ok_stdout [simp]: "roster_ok (st\<lparr>stdout := out\<rparr>) = roster_ok st"
  by (simp add: roster_ok_def)

lemma enrolled_ok_stdout [simp]: "enrolled_ok (st\<lparr>stdout := out\<rparr>) = enrolled_ok st"
  by (simp add: enrolled_ok_def)

lemma registry_ok_stdout [simp]: "registry_ok (st\<lparr>stdout := out\<rparr>) = registry_ok st"
  by (simp add: registry_ok_def)

lemma wf_state_stdout [simp]: "wf_state (st\<lparr>stdout := out\<rparr>) = wf_state st"
  by (simp add: wf_state_def)

subsection \<open>Dropping a course\<close>

lemma Student_drop_course_effect:
  "map_of (courses (student_obj st s)) code = Some c \<Longrightarrow>
   Student_drop_course s code st =
     Course_remove_student c s
       (st\<lparr>student_obj := (student_obj st)(s := (student_obj st s)
              \<lparr>courses := AList.delete code (courses (student_obj st s))\<rparr>)\<rparr>)"
  by (auto simp: Student_drop_course_def dict_pop_def dict_contains_def dest: map_of_SomeD
        intro: rev_image_eqI)

lemma Student_drop_course_noop:
  "map_of (courses (student_obj st s)) code = None \<Longrightarrow>
   Student_drop_course s code st = Inr (st\<lparr>stdout := stdout st @ [''Course not found'']\<rparr>)"
  by (simp add: Student_drop_course_def dict_contains_def map_of_eq_None_iff py_print_def)

subsection \<open>Preservation of the roster invariant\<close>

lemma roster_ok_course_obj:
  "course_obj st' = course_obj st \<Longrightarrow> roster_ok st' = roster_ok st"
  by (simp add: roster_ok_def)

lemma roster_okI:
  "(\<And>c. distinct (students (course_obj st c))) \<Longrightarrow>
   (\<And>c x. x \<in> set (students (course_obj st c)) \<Longrightarrow> x \<in> set (observers (course_obj st c))) \<Longrightarrow>
   roster_ok st"
  by (auto simp: roster_ok_def)

lemma roster_ok_distinct: "roster_ok st \<Longrightarrow> distinct (students (course_obj st c))"
  by (simp add: roster_ok_def)

lemma roster_ok_observed:
  "roster_ok st \<Longrightarrow> x \<in> set (students (course_obj st c)) \<Longrightarrow>
   x \<in> set (observers (course_obj st c))"
  by (auto simp: roster_ok_def)

lemma roster_ok_Course_init: "roster_ok st \<Longrightarrow> roster_ok (snd (Course_init code nm cr st))"
  by (simp add: roster_ok_def Course_init_def)

lemma roster_ok_Course_attach:
  assumes "roster_ok st"
  shows "roster_ok (Course_attach c s st)"
proof -
  note d = roster_ok_distinct [OF assms] and ob = roster_ok_observed [OF assms]
  show ?thesis
    by (rule roster_okI) (auto simp: Course_attach_def d ob)
qed

lemma roster_ok_Course_add_student:
  assumes "roster_ok st"
  shows "roster_ok (Course_add_student c s st)"
proof (cases "s \<in> set (students (course_obj st c))")
  case True
  with assms show ?thesis by (simp add: Course_add_student_noop)
next
  case False
  note d = roster_ok_distinct [OF assms] and ob = roster_ok_observed [OF assms]
  show ?thesis
    unfolding Course_add_student_effect [OF False]
    by (rule roster_okI) (auto simp: d ob False)
qed

lemma roster_ok_Course_remove_student:
  assumes "roster_ok st" "Course_remove_student c s st = Inr st'"
  shows "roster_ok st'"
proof (cases "s \<in> set (students (course_obj st c))")
  case False
  with assms show ?thesis by (simp add: Course_remove_student_noop)
next
  case True
  note d = roster_ok_distinct [OF assms(1)] and ob = roster_ok_observed [OF assms(1)]
  have st': "st' = st\<lparr>course_obj := (course_obj st)(c := (course_obj st c)
                 \<lparr>students := remove1 s (students (course_obj st c))\<rparr>),
             stdout := stdout st @
               map (notification st (''Dropped from '' @ course_name (course_obj st c)))
                   (observers (course_obj st c))\<rparr>"
    using assms(2) by (simp add: Course_remove_student_effect [OF True])
  show ?thesis
    unfolding st' by (rule roster_okI) (auto simp: d ob dest: notin_set_remove1)
qed

lemma roster_ok_Student_add_course: "roster_ok st \<Longrightarrow> roster_ok (Student_add_course s c st)"
  unfolding Student_add_course_def
  by (auto simp: py_print_def intro!: roster_ok_Course_add_student)
     (simp add: roster_ok_def)

lemma roster_ok_Student_drop_course:
  assumes "roster_ok st" "Student_drop_course s code st = Inr st'"
  shows "roster_ok st'"
proof (cases "map_of (courses (student_obj st s)) code")
  case None
  with assms show ?thesis by (auto simp: Student_drop_course_noop)
next
  case (Some c)
  have "roster_ok (st\<lparr>student_obj := (student_obj st)(s := (student_obj st s)
              \<lparr>courses := AList.delete code (courses (student_obj st s))\<rparr>)\<rparr>)"
    using assms(1) by (simp add: roster_ok_def)
  then show ?thesis
    using assms(2) unfolding Student_drop_course_effect [OF Some]
    by (rule roster_ok_Course_remove_student)
qed

subsection \<open>Frames\<close>

lemma frame_refl [simp]: "frame st st"
  by (simp add: frame_def)

lemma frame_stdout [simp]: "frame st (st\<lparr>stdout := out\<rparr>)"
  by (simp add: frame_def)

lemma frame_trans: "frame st st' \<Longrightarrow> frame st' st'' \<Longrightarrow> frame st st''"
  by (simp add: frame_def)

lemma frame_Course_attach: "frame st (Course_attach c s st)"
  by (simp add: frame_def Course_attach_def)

lemma frame_Course_add_student: "frame st (Course_add_student c s st)"
  by (cases "s \<in> set (students (course_obj st c))")
     (simp_all add: Course_add_student_effect Course_add_student_noop frame_def)

lemma frame_Course_remove_student:
  "Course_remove_student c s st = Inr st' \<Longrightarrow> frame st st'"
  by (cases "s \<in> set (students (course_obj st c))")
     (auto simp: Course_remove_student_effect Course_remove_student_noop frame_def)

lemma frame_Student_add_course: "frame st (Student_add_course s c st)"
proof -
  have "frame st (st\<lparr>student_obj := (student_obj st)(s := (student_obj st s)
          \<lparr>courses := AList.update (course_code (course_obj st c)) c (courses (student_obj st s))\<rparr>)\<rparr>)"
    by (simp add: frame_def)
  then show ?thesis
    unfolding Student_add_course_def
    by (auto simp: py_print_def intro: frame_trans frame_Course_add_student)
qed

lemma frame_Student_drop_course:
  assumes "Student_drop_course s code st = Inr st'"
  shows "frame st st'"
proof (cases "map_of (courses (student_obj st s)) code")
  case None
  with assms show ?thesis by (auto simp: Student_drop_course_noop)
next
  case (Some c)
  have "frame st (st\<lparr>student_obj := (student_obj st)(s := (student_obj st s)
              \<lparr>courses := AList.delete code (courses (student_obj st s))\<rparr>)\<rparr>)"
    by (simp add: frame_def)
  moreover have "frame (st\<lparr>student_obj := (student_obj st)(s := (student_obj st s)
              \<lparr>courses := AList.delete code (courses (student_obj st s))\<rparr>)\<rparr>) st'"
    using assms unfolding Student_drop_course_effect [OF Some]
    by (rule frame_Course_remove_student)
  ultimately show ?thesis by (rule frame_trans)
qed

lemma frame_Teacher_assign_course: "frame st (Teacher_assign_course t c st)"
  by (simp add: frame_def Teacher_assign_course_def)

lemma frame_Teacher_assign_grade: "frame st (Teacher_assign_grade f t s code v st)"
  by (simp add: frame_def Teacher_assign_grade_def Student_update_def py_print_def)

subsection \<open>The student store under the course operations\<close>

lemma student_obj_Course_attach: "student_obj (Course_attach c s st) = student_obj st"
  by (simp add: Course_attach_def)

lemma student_obj_Course_add_student: "student_obj (Course_add_student c s st) = student_obj st"
  by (cases "s \<in> set (students (course_obj st c))")
     (simp_all add: Course_add_student_effect Course_add_student_noop)

lemma student_obj_Course_remove_student:
  "Course_remove_student c s st = Inr st' \<Longrightarrow> student_obj st' = student_obj st"
  by (cases "s \<in> set (students (course_obj st c))")
     (auto simp: Course_remove_student_effect Course_remove_student_noop)

subsection \<open>Preservation of the enrollment invariant\<close>

lemma enrolled_okI:
  "(\<And>s. distinct (map fst (courses (student_obj st s)))) \<Longrightarrow>
   (\<And>s k c. (k, c) \<in> set (courses (student_obj st s)) \<Longrightarrow>
      c < next_course st \<and> course_code (course_obj st c) = k) \<Longrightarrow>
   enrolled_ok st"
  by (auto simp: enrolled_ok_def)

lemma enrolled_ok_distinct: "enrolled_ok st \<Longrightarrow> distinct (map fst (courses (student_obj st s)))"
  by (simp add: enrolled_ok_def)

lemma enrolled_ok_entry:
  "enrolled_ok st \<Longrightarrow> (k, c) \<in> set (courses (student_obj st s)) \<Longrightarrow>
   c < next_course st \<and> course_code (course_obj st c) = k"
  by (auto simp: enrolled_ok_def)

lemma enrolled_ok_frame:
  assumes "enrolled_ok st" "frame st st'" "student_obj st' = student_obj st"
  shows "enrolled_ok st'"
  using assms by (simp add: enrolled_ok_def frame_def)

lemma enrolled_ok_Student_init:
  "enrolled_ok st \<Longrightarrow> enrolled_ok (snd (Student_init n i e g st))"
  by (simp add: enrolled_ok_def Student_init_def)

lemma enrolled_ok_Course_init:
  assumes "enrolled_ok st"
  shows "enrolled_ok (snd (Course_init code nm cr st))"
proof -
  note d = enrolled_ok_distinct [OF assms] and en = enrolled_ok_entry [OF assms]
  show ?thesis
    by (rule enrolled_okI) (auto simp: Course_init_def d dest: en)
qed

lemma enrolled_ok_Teacher_assign_course:
  "enrolled_ok st \<Longrightarrow> enrolled_ok (Teacher_assign_course t c st)"
  by (simp add: enrolled_ok_def Teacher_assign_course_def)

lemma enrolled_ok_Teacher_assign_grade:
  "enrolled_ok st \<Longrightarrow> enrolled_ok (Teacher_assign_grade f t s code v st)"
  by (simp add: enrolled_ok_def Teacher_assign_grade_def Student_update_def py_print_def)

lemma enrolled_ok_Student_add_course:
  assumes "enrolled_ok st" "c < next_course st"
  shows "enrolled_ok (Student_add_course s c st)"
proof (cases "dict_contains (course_code (course_obj st c)) (courses (student_obj st s))")
  case True
  with assms show ?thesis by (simp add: Student_add_course_noop)
next
  case False
  let ?st1 = "st\<lparr>student_obj := (student_obj st)(s := (student_obj st s)
          \<lparr>courses := AList.update (course_code (course_obj st c)) c (courses (student_obj st s))\<rparr>)\<rparr>"
  note d = enrolled_ok_distinct [OF assms(1)] and en = enrolled_ok_entry [OF assms(1)]
  have "enrolled_ok ?st1"
  proof (rule enrolled_okI)
    fix s' show "distinct (map fst (courses (student_obj ?st1 s')))"
      by (simp add: d distinct_update)
  next
    fix s' k c' assume "(k, c') \<in> set (courses (student_obj ?st1 s'))"
    then have "(k, c') \<in> set (courses (student_obj st s')) \<or>
               (k, c') = (course_code (course_obj st c), c)"
      using set_update_subset [of "course_code (course_obj st c)" c "courses (student_obj st s)"]
      by (auto split: if_splits)
    then show "c' < next_course ?st1 \<and> course_code (course_obj ?st1 c') = k"
      using en assms(2) by auto
  qed
  then have "enrolled_ok (Course_add_student c s ?st1)"
    by (rule enrolled_ok_frame) (simp_all add: frame_Course_add_student student_obj_Course_add_student)
  then show ?thesis
    using False by (simp add: Student_add_course_def)
qed

lemma enrolled_ok_Student_drop_course:
  assumes "enrolled_ok st" "Student_drop_course s code st = Inr st'"
  shows "enrolled_ok st'"
proof (cases "map_of (courses (student_obj st s)) code")
  case None
  with assms show ?thesis by (auto simp: Student_drop_course_noop)
next
  case (Some c)
  let ?st1 = "st\<lparr>student_obj := (student_obj st)(s := (student_obj st s)
              \<lparr>courses := AList.delete code (courses (student_obj st s))\<rparr>)\<rparr>"
  note d = enrolled_ok_distinct [OF assms(1)] and en = enrolled_ok_entry [OF assms(1)]
  have rm: "Course_remove_student c s ?st1 = Inr st'"
    using assms(2) unfolding Student_drop_course_effect [OF Some] .
  have "enrolled_ok ?st1"
  proof (rule enrolled_okI)
    fix s' show "distinct (map fst (courses (student_obj ?st1 s')))"
      by (simp add: d distinct_delete)
  next
    fix s' k c' assume "(k, c') \<in> set (courses (student_obj ?st1 s'))"
    then have "(k, c') \<in> set (courses (student_obj st s'))"
      by (auto simp: set_delete split: if_splits)
    then show "c' < next_course ?st1 \<and> course_code (course_obj ?st1 c') = k"
      using en by auto
  qed
  then show ?thesis
    by (rule enrolled_ok_frame)
       (simp_all add: frame_Course_remove_student [OF rm] student_obj_Course_remove_student [OF rm])
qed

subsection \<open>Preservation of the registry invariant\<close>

lemma registry_okI:
  assumes "\<And>u. distinct (map fst (u_students (university_obj st u)))"
    and "\<And>u. distinct (map fst (u_teachers (university_obj st u)))"
    and "\<And>u. distinct (map fst (u_courses (university_obj st u)))"
    and "\<And>u k s. (k, s) \<in> set (u_students (university_obj st u)) \<Longrightarrow>
           s < next_student st \<and> person_id (student_obj st s) = k"
    and "\<And>u k t. (k, t) \<in> set (u_teachers (university_obj st u)) \<Longrightarrow>
           t < next_teacher st \<and> person_id (teacher_obj st t) = k"
    and "\<And>u k c. (k, c) \<in> set (u_courses (university_obj st u)) \<Longrightarrow>
           c < next_course st \<and> course_code (course_obj st c) = k"
  shows "registry_ok st"
  unfolding registry_ok_def using assms by (intro allI conjI ballI) auto

lemma registry_ok_distinct:
  assumes "registry_ok st"
  shows "distinct (map fst (u_students (university_obj st u)))"
    and "distinct (map fst (u_teachers (university_obj st u)))"
    and "distinct (map fst (u_courses (university_obj st u)))"
  using assms by (simp_all add: registry_ok_def)

lemma registry_ok_student:
  "registry_ok st \<Longrightarrow> (k, s) \<in> set (u_students (university_obj st u)) \<Longrightarrow>
   s < next_student st \<and> person_id (student_obj st s) = k"
  unfolding registry_ok_def by blast

lemma registry_ok_teacher:
  "registry_ok st \<Longrightarrow> (k, t) \<in> set (u_teachers (university_obj st u)) \<Longrightarrow>
   t < next_teacher st \<and> person_id (teacher_obj st t) = k"
  unfolding registry_ok_def by blast

lemma registry_ok_course:
  "registry_ok st \<Longrightarrow> (k, c) \<in> set (u_courses (university_obj st u)) \<Longrightarrow>
   c < next_course st \<and> course_code (course_obj st c) = k"
  unfolding registry_ok_def by blast

lemma registry_ok_frame: "registry_ok st \<Longrightarrow> frame st st' \<Longrightarrow> registry_ok st'"
  by (simp add: registry_ok_def frame_def)

lemma registry_ok_Student_init:
  assumes "registry_ok st"
  shows "registry_ok (snd (Student_init n i e g st))"
proof -
  note d = registry_ok_distinct [OF assms]
  show ?thesis
    by (rule registry_okI)
       (auto simp: Student_init_def d dest: registry_ok_student [OF assms]
          registry_ok_teacher [OF assms] registry_ok_course [OF assms])
qed

lemma registry_ok_Teacher_init:
  assumes "registry_ok st"
  shows "registry_ok (snd (Teacher_init n i e st))"
proof -
  note d = registry_ok_distinct [OF assms]
  show ?thesis
    by (rule registry_okI)
       (auto simp: Teacher_init_def d dest: registry_ok_student [OF assms]
          registry_ok_teacher [OF assms] registry_ok_course [OF assms])
qed

lemma registry_ok_Authority_init:
  "registry_ok st \<Longrightarrow> registry_ok (snd (Authority_init n i e st))"
  by (simp add: registry_ok_def Authority_init_def)

lemma registry_ok_Course_init:
  assumes "registry_ok st"
  shows "registry_ok (snd (Course_init code nm cr st))"
proof -
  note d = registry_ok_distinct [OF assms]
  show ?thesis
    by (rule registry_okI)
       (auto simp: Course_init_def d dest: registry_ok_student [OF assms]
          registry_ok_teacher [OF assms] registry_ok_course [OF assms])
qed

lemma registry_ok_UniversitySystem_new:
  assumes "registry_ok st"
  shows "registry_ok (snd (UniversitySystem_new st))"
proof -
  note d = registry_ok_distinct [OF assms]
  show ?thesis
    by (rule registry_okI)
       (auto simp: UniversitySystem_new_def d split: option.splits if_splits
          dest: registry_ok_student [OF assms]
          registry_ok_teacher [OF assms] registry_ok_course [OF assms])
qed

lemma registry_ok_add_student:
  assumes "registry_ok st" "s < next_student st"
  shows "registry_ok (add_student u s st)"
proof -
  note d = registry_ok_distinct [OF assms(1)]
  have *: "(k, s') \<in> set (AList.update (person_id (student_obj st s)) s
                       (u_students (university_obj st u))) \<Longrightarrow>
           s' < next_student st \<and> person_id (student_obj st s') = k" for k s'
    using set_update_subset [of "person_id (student_obj st s)" s "u_students (university_obj st u)"]
          registry_ok_student [OF assms(1), of k s' u] assms(2)
    by auto
  show ?thesis
    by (rule registry_okI)
       (auto simp: add_student_def d distinct_update split: if_splits dest: *
          registry_ok_student [OF assms(1)]
          registry_ok_teacher [OF assms(1)] registry_ok_course [OF assms(1)])
qed

lemma registry_ok_add_teacher:
  assumes "registry_ok st" "t < next_teacher st"
  shows "registry_ok (add_teacher u t st)"
proof -
  note d = registry_ok_distinct [OF assms(1)]
  have *: "(k, t') \<in> set (AList.update (person_id (teacher_obj st t)) t
                       (u_teachers (university_obj st u))) \<Longrightarrow>
           t' < next_teacher st \<and> person_id (teacher_obj st t') = k" for k t'
    using set_update_subset [of "person_id (teacher_obj st t)" t "u_teachers (university_obj st u)"]
          registry_ok_teacher [OF assms(1), of k t' u] assms(2)
    by auto
  show ?thesis
    by (rule registry_okI)
       (auto simp: add_teacher_def d distinct_update split: if_splits dest: *
          registry_ok_student [OF assms(1)]
          registry_ok_teacher [OF assms(1)] registry_ok_course [OF assms(1)])
qed

lemma registry_ok_add_course:
  assumes "registry_ok st" "c < next_course st"
  shows "registry_ok (add_course u c st)"
proof -
  note d = registry_ok_distinct [OF assms(1)]
  have *: "(k, c') \<in> set (AList.update (course_code (course_obj st c)) c
                       (u_courses (university_obj st u))) \<Longrightarrow>
           c' < next_course st \<and> course_code (course_obj st c') = k" for k c'
    using set_update_subset [of "course_code (course_obj st c)" c "u_courses (university_obj st u)"]
          registry_ok_course [OF assms(1), of k c' u] assms(2)
    by auto
  show ?thesis
    by (rule registry_okI)
       (auto simp: add_course_def d distinct_update split: if_splits dest: *
          registry_ok_student [OF assms(1)]
          registry_ok_teacher [OF assms(1)] registry_ok_course [OF assms(1)])
qed

lemma registry_ok_remove_student:
  assumes "registry_ok st"
  shows "registry_ok (remove_student u k st)"
proof -
  note d = registry_ok_distinct [OF assms(1)]
  show ?thesis
    by (rule registry_okI)
       (auto simp: remove_student_def d distinct_delete set_delete split: if_splits
          dest: registry_ok_student [OF assms(1)]
          registry_ok_teacher [OF assms(1)] registry_ok_course [OF assms(1)])
qed

lemma registry_ok_remove_teacher:
  assumes "registry_ok st"
  shows "registry_ok (remove_teacher u k st)"
proof -
  note d = registry_ok_distinct [OF assms(1)]
  show ?thesis
    by (rule registry_okI)
       (auto simp: remove_teacher_def d distinct_delete set_delete split: if_splits
          dest: registry_ok_student [OF assms(1)]
          registry_ok_teacher [OF assms(1)] registry_ok_course [OF assms(1)])
qed

lemma registry_ok_remove_course:
  assumes "registry_ok st"
  shows "registry_ok (remove_course u k st)"
proof -
  note d = registry_ok_distinct [OF assms(1)]
  show ?thesis
    by (rule registry_okI)
       (auto simp: remove_course_def d distinct_delete set_delete split: if_splits
          dest: registry_ok_student [OF assms(1)]
          registry_ok_teacher [OF assms(1)] registry_ok_course [OF assms(1)])
qed

subsection \<open>Every valid call preserves the invariants\<close>

lemma wf_state_init: "wf_state init_state"
  by (simp add: wf_state_def roster_ok_def enrolled_ok_def registry_ok_def init_state_def)

lemma wf_state_Student_init: "wf_state st \<Longrightarrow> wf_state (snd (Student_init n i e g st))"
  by (simp add: wf_state_def enrolled_ok_Student_init registry_ok_Student_init)
     (simp add: roster_ok_def Student_init_def)

lemma wf_state_Teacher_init: "wf_state st \<Longrightarrow> wf_state (snd (Teacher_init n i e st))"
  by (simp add: wf_state_def registry_ok_Teacher_init)
     (simp add: roster_ok_def enrolled_ok_def Teacher_init_def)

lemma wf_state_Authority_init: "wf_state st \<Longrightarrow> wf_state (snd (Authority_init n i e st))"
  by (simp add: wf_state_def registry_ok_Authority_init)
     (simp add: roster_ok_def enrolled_ok_def Authority_init_def)

lemma wf_state_Course_init: "wf_state st \<Longrightarrow> wf_state (snd (Course_init code nm cr st))"
  by (simp add: wf_state_def registry_ok_Course_init enrolled_ok_Course_init roster_ok_Course_init)

lemma wf_state_create_user:
  "wf_state st \<Longrightarrow> create_user r n i e st = Inr (x, st') \<Longrightarrow> wf_state st'"
  using wf_state_Student_init [of st n i e RegularGPA] wf_state_Teacher_init [of st n i e]
        wf_state_Authority_init [of st n i e]
  by (auto simp: create_user_def split: if_splits prod.splits)

lemma wf_state_UniversitySystem_new: "wf_state st \<Longrightarrow> wf_state (snd (UniversitySystem_new st))"
  by (simp add: wf_state_def registry_ok_UniversitySystem_new)
     (auto simp: roster_ok_def enrolled_ok_def UniversitySystem_new_def split: option.splits)

lemma wf_state_Course_attach: "wf_state st \<Longrightarrow> wf_state (Course_attach c s st)"
  by (simp add: wf_state_def roster_ok_Course_attach
        enrolled_ok_frame [OF _ frame_Course_attach student_obj_Course_attach]
        registry_ok_frame [OF _ frame_Course_attach])

lemma wf_state_Course_add_student: "wf_state st \<Longrightarrow> wf_state (Course_add_student c s st)"
  by (simp add: wf_state_def roster_ok_Course_add_student
        enrolled_ok_frame [OF _ frame_Course_add_student student_obj_Course_add_student]
        registry_ok_frame [OF _ frame_Course_add_student])

lemma wf_state_Course_remove_student:
  assumes "wf_state st" "Course_remove_student c s st = Inr st'"
  shows "wf_state st'"
  using assms(1)
  by (simp add: wf_state_def roster_ok_Course_remove_student [OF _ assms(2)]
        enrolled_ok_frame [OF _ frame_Course_remove_student [OF assms(2)]
          student_obj_Course_remove_student [OF assms(2)]]
        registry_ok_frame [OF _ frame_Course_remove_student [OF assms(2)]])

lemma wf_state_Student_add_course:
  "wf_state st \<Longrightarrow> c < next_course st \<Longrightarrow> wf_state (Student_add_course s c st)"
  by (simp add: wf_state_def roster_ok_Student_add_course enrolled_ok_Student_add_course
        registry_ok_frame [OF _ frame_Student_add_course])

lemma wf_state_Student_drop_course:
  assumes "wf_state st" "Student_drop_course s k st = Inr st'"
  shows "wf_state st'"
  using assms(1)
  by (simp add: wf_state_def roster_ok_Student_drop_course [OF _ assms(2)]
        enrolled_ok_Student_drop_course [OF _ assms(2)]
        registry_ok_frame [OF _ frame_Student_drop_course [OF assms(2)]])

lemma wf_state_Teacher_assign_course: "wf_state st \<Longrightarrow> wf_state (Teacher_assign_course t c st)"
  by (simp add: wf_state_def enrolled_ok_Teacher_assign_course
        registry_ok_frame [OF _ frame_Teacher_assign_course])
     (simp add: roster_ok_def Teacher_assign_course_def)

lemma wf_state_Teacher_assign_grade:
  "wf_state st \<Longrightarrow> wf_state (Teacher_assign_grade f t s k v st)"
  by (simp add: wf_state_def enrolled_ok_Teacher_assign_grade
        registry_ok_frame [OF _ frame_Teacher_assign_grade])
     (simp add: roster_ok_def Teacher_assign_grade_def Student_update_def py_print_def)

lemma roster_ok_university [simp]:
  "roster_ok (st\<lparr>university_obj := x\<rparr>) = roster_ok st"
  by (simp add: roster_ok_def)

lemma enrolled_ok_university [simp]:
  "enrolled_ok (st\<lparr>university_obj := x\<rparr>) = enrolled_ok st"
  by (simp add: enrolled_ok_def)

lemma wf_state_add_student:
  "wf_state st \<Longrightarrow> s < next_student st \<Longrightarrow> wf_state (add_student u s st)"
  unfolding wf_state_def
  by (simp add: registry_ok_add_student) (simp add: add_student_def)

lemma wf_state_add_teacher:
  "wf_state st \<Longrightarrow> t < next_teacher st \<Longrightarrow> wf_state (add_teacher u t st)"
  unfolding wf_state_def
  by (simp add: registry_ok_add_teacher) (simp add: add_teacher_def)

lemma wf_state_add_course:
  "wf_state st \<Longrightarrow> c < next_course st \<Longrightarrow> wf_state (add_course u c st)"
  unfolding wf_state_def
  by (simp add: registry_ok_add_course) (simp add: add_course_def)

lemma wf_state_remove_student: "wf_state st \<Longrightarrow> wf_state (remove_student u k st)"
  unfolding wf_state_def
  by (simp add: registry_ok_remove_student) (simp add: remove_student_def)

lemma wf_state_remove_teacher: "wf_state st \<Longrightarrow> wf_state (remove_teacher u k st)"
  unfolding wf_state_def
  by (simp add: registry_ok_remove_teacher) (simp add: remove_teacher_def)

lemma wf_state_remove_course: "wf_state st \<Longrightarrow> wf_state (remove_course u k st)"
  unfolding wf_state_def
  by (simp add: registry_ok_remove_course) (simp add: remove_course_def)

lemma wf_state_exec:
  assumes "wf_state st" "valid_call c st" "exec f c st = Inr st'"
  shows "wf_state st'"
proof (cases c)
  case (StudentInit n i e g)
  with assms show ?thesis by (auto simp: wf_state_Student_init)
next
  case (TeacherInit n i e)
  with assms show ?thesis by (auto simp: wf_state_Teacher_init)
next
  case (AuthorityInit n i e)
  with assms show ?thesis by (auto simp: wf_state_Authority_init)
next
  case (CourseInit code nm cr)
  with assms show ?thesis by (auto simp: wf_state_Course_init)
next
  case (CreateUser r n i e)
  with assms show ?thesis
    by (cases "create_user r n i e st") (auto dest: wf_state_create_user)
next
  case UniversitySystemNew
  with assms show ?thesis by (auto simp: wf_state_UniversitySystem_new)
next
  case (RegularGPACalculate g)
  with assms show ?thesis by (cases "RegularGPA_calculate g") auto
next
  case (CourseAttach c' s)
  with assms show ?thesis by (auto simp: wf_state_Course_attach)
next
  case (CourseNotify c' m)
  with assms show ?thesis by (auto simp: Course_notify_effect)
next
  case (CourseAddStudent c' s)
  with assms show ?thesis by (auto simp: wf_state_Course_add_student)
next
  case (CourseRemoveStudent c' s)
  with assms show ?thesis by (auto dest: wf_state_Course_remove_student)
next
  case (CourseViewStudents c')
  with assms show ?thesis by (auto simp: Course_view_students_effect)
next
  case (StudentAddCourse s c')
  with assms show ?thesis by (auto simp: wf_state_Student_add_course)
next
  case (StudentDropCourse s k)
  with assms show ?thesis by (auto dest: wf_state_Student_drop_course)
next
  case (StudentUpdate s m)
  with assms show ?thesis by (auto simp: Student_update_def py_print_def)
next
  case (StudentViewCourses s)
  with assms show ?thesis by (auto simp: Student_view_courses_effect)
next
  case (StudentViewGrades s)
  with assms show ?thesis by (auto simp: Student_view_grades_effect)
next
  case (StudentCalculateGpa s)
  with assms show ?thesis by (cases "Student_calculate_gpa s st") auto
next
  case (StudentDisplayInfo s)
  with assms show ?thesis by (auto simp: Person_display_info_def py_print_def)
next
  case (TeacherAssignCourse t c')
  with assms show ?thesis by (auto simp: wf_state_Teacher_assign_course)
next
  case (TeacherAssignGrade t s k g)
  with assms show ?thesis by (auto simp: wf_state_Teacher_assign_grade)
next
  case (TeacherViewCourses t)
  with assms show ?thesis by (auto simp: Teacher_view_courses_effect)
next
  case (TeacherDisplayInfo t)
  with assms show ?thesis by (auto simp: Person_display_info_def py_print_def)
next
  case (AuthorityCreateCourse a code nm cr)
  with assms show ?thesis by (auto simp: Authority_create_course_def wf_state_Course_init)
next
  case (AuthorityDisplayInfo a)
  with assms show ?thesis by (auto simp: Person_display_info_def py_print_def)
next
  case (AddStudent u s)
  with assms show ?thesis by (auto simp: wf_state_add_student)
next
  case (RemoveStudent u k)
  with assms show ?thesis by (auto simp: wf_state_remove_student)
next
  case (AddTeacher u t)
  with assms show ?thesis by (auto simp: wf_state_add_teacher)
next
  case (RemoveTeacher u k)
  with assms show ?thesis by (auto simp: wf_state_remove_teacher)
next
  case (AddCourse u c')
  with assms show ?thesis by (auto simp: wf_state_add_course)
next
  case (RemoveCourse u k)
  with assms show ?thesis by (auto simp: wf_state_remove_course)
next
  case (ListStudents u)
  with assms show ?thesis by (auto simp: list_students_effect)
next
  case (ListTeachers u)
  with assms show ?thesis by (auto simp: list_teachers_effect)
next
  case (ListCourses u)
  with assms show ?thesis by (auto simp: list_courses_effect)
qed

lemma reachable_wf_state: "reachable f st \<Longrightarrow> wf_state st"
  by (induction rule: reachable.induct) (auto intro: wf_state_init wf_state_exec)

subsection \<open>Which calls can raise\<close>

































subsection \<open>The singleton slot\<close>

lemma instance_exec:
  assumes "UniversitySystem_instance st = Some u" "exec f c st = Inr st'"
  shows "UniversitySystem_instance st' = Some u"
proof (cases c)
  case (CreateUser r n i e)
  with assms show ?thesis
    by (auto simp: create_user_def Student_init_def Teacher_init_def Authority_init_def
          split: if_splits)
next
  case (RegularGPACalculate g)
  with assms show ?thesis by (cases "RegularGPA_calculate g") auto
next
  case (StudentCalculateGpa s)
  with assms show ?thesis by (cases "Student_calculate_gpa s st") auto
next
  case (CourseAttach c' s)
  with assms frame_Course_attach [of st c' s] show ?thesis by (auto simp: frame_def)
next
  case (CourseAddStudent c' s)
  with assms frame_Course_add_student [of st c' s] show ?thesis by (auto simp: frame_def)
next
  case (CourseRemoveStudent c' s)
  with assms frame_Course_remove_student [of c' s st st'] show ?thesis by (auto simp: frame_def)
next
  case (StudentAddCourse s c')
  with assms frame_Student_add_course [of st s c'] show ?thesis by (auto simp: frame_def)
next
  case (StudentDropCourse s k)
  with assms frame_Student_drop_course [of s k st st'] show ?thesis by (auto simp: frame_def)
next
  case (TeacherAssignGrade t s k g)
  with assms frame_Teacher_assign_grade [of st f t s k g] show ?thesis by (auto simp: frame_def)
qed (use assms in \<open>auto simp: print_effects Student_init_def Teacher_init_def Authority_init_def
       Course_init_def Authority_create_course_def UniversitySystem_new_def
       Teacher_assign_course_def add_student_def add_teacher_def add_course_def
       remove_student_def remove_teacher_def remove_course_def\<close>)

lemma instance_exec_all:
  "UniversitySystem_instance st = Some u \<Longrightarrow> exec_all f cs st = Inr st' \<Longrightarrow>
   UniversitySystem_instance st' = Some u"
proof (induction cs arbitrary: st)
  case Nil
  then show ?case by simp
next
  case (Cons c cs)
  then show ?case
    by (cases "exec f c st") (auto dest: instance_exec)
qed

subsection \<open>The concrete states are reachable\<close>

lemma reachable_demo_student: "reachable f demo_student"
  unfolding demo_student_def
  by (rule reachable_step [OF reachable_init,
        where c = "StudentInit ''MS Dhoni'' ''S01'' ''msdhoni7@uni.edu'' RegularGPA"]) simp_all

lemma demo_created_eq:
  "demo_created = snd (Course_init ''CSE110'' ''Intro to Programming'' (PyInt 3) demo_student)"
  by (simp add: demo_created_def demo_student_def)

lemma reachable_demo_created: "reachable f demo_created"
  unfolding demo_created_eq
  by (rule reachable_step [OF reachable_demo_student,
        where c = "CourseInit ''CSE110'' ''Intro to Programming'' (PyInt 3)"]) simp_all

lemma demo_created_eval:
  "courses (student_obj demo_created 0) = []"
  "grades (student_obj demo_created 0) = []"
  "name (student_obj demo_created 0) = ''MS Dhoni''"
  "person_id (student_obj demo_created 0) = ''S01''"
  "students (course_obj demo_created 0) = []"
  "observers (course_obj demo_created 0) = []"
  "course_code (course_obj demo_created 0) = ''CSE110''"
  "course_name (course_obj demo_created 0) = ''Intro to Programming''"
  "stdout demo_created = []"
  "next_student demo_created = 1"
  "next_course demo_created = 1"
  by (simp_all add: demo_created_def Course_init_def Student_init_def init_state_def)

lemma reachable_demo_one_sided: "reachable f demo_one_sided"
  unfolding demo_one_sided_def
  by (rule reachable_step [OF reachable_demo_created, where c = "CourseAddStudent 0 0"])
     (simp_all add: demo_created_eval)

lemma demo_enrolled_eq: "demo_enrolled = Student_add_course 0 0 demo_created"
  by (simp add: demo_enrolled_def demo_created_def)

lemma reachable_demo_enrolled: "reachable f demo_enrolled"
  unfolding demo_enrolled_eq
  by (rule reachable_step [OF reachable_demo_created, where c = "StudentAddCourse 0 0"])
     (simp_all add: demo_created_eval)

lemma demo_one_sided_eval:
  "courses (student_obj demo_one_sided 0) = []"
  "students (course_obj demo_one_sided 0) = [0]"
  "observers (course_obj demo_one_sided 0) = [0]"
  "stdout demo_one_sided = [''[Notification - MS Dhoni]: Enrolled in Intro to Programming'']"
  by (simp_all add: demo_one_sided_def Course_add_student_effect demo_created_eval
        notification_def)

lemma demo_student_eval:
  "UniversitySystem_instance demo_student = None"
  "next_university demo_student = 0"
  "person_id (student_obj demo_student 0) = ''S01''"
  "gpa_strategy (student_obj demo_student 0) = RegularGPA"
  by (simp_all add: demo_student_def Student_init_def init_state_def)

lemma demo_university_eval:
  "UniversitySystem_new demo_student = (0, demo_university)"
  "UniversitySystem_instance demo_university = Some 0"
  "university_obj demo_university 0 = \<lparr>u_students = [], u_teachers = [], u_courses = []\<rparr>"
  "person_id (student_obj demo_university 0) = ''S01''"
  "next_student demo_university = 1"
  "next_university demo_university = 1"
  by (simp_all add: demo_university_def demo_student_def UniversitySystem_new_def
        Student_init_def init_state_def)

lemma reachable_demo_university: "reachable f demo_university"
  unfolding demo_university_def
  by (rule reachable_step [OF reachable_demo_student, where c = UniversitySystemNew]) simp_all

lemma reachable_demo_registered: "reachable f demo_registered"
  unfolding demo_registered_def
  by (rule reachable_step [OF reachable_demo_university, where c = "AddStudent 0 0"])
     (simp_all add: demo_university_eval)

lemma demo_registered_eval:
  "u_students (university_obj demo_registered 0) = [(''S01'', 0)]"
  "person_id (student_obj demo_registered 0) = ''S01''"
  "UniversitySystem_instance demo_registered = Some 0"
  "stdout demo_registered = []"
  by (simp_all add: demo_registered_def add_student_def demo_university_eval)
     (simp_all add: demo_university_def demo_student_def UniversitySystem_new_def
        Student_init_def init_state_def)

lemma UniversitySystem_new_instance:
  "UniversitySystem_new st = (u, st1) \<Longrightarrow> UniversitySystem_instance st1 = Some u"
  by (auto simp: UniversitySystem_new_def split: option.splits)

lemma UniversitySystem_new_again:
  "UniversitySystem_instance st = Some u \<Longrightarrow> UniversitySystem_new st = (u, st)"
  by (simp add: UniversitySystem_new_def)

lemma reachable_exec_all:
  "reachable f st \<Longrightarrow> valid_all f cs st \<Longrightarrow> exec_all f cs st = Inr st' \<Longrightarrow> reachable f st'"
proof (induction cs arbitrary: st)
  case Nil
  then show ?case by simp
next
  case (Cons c cs)
  then show ?case
    by (cases "exec f c st") (auto intro: reachable_step)
qed

lemma demo_duplicates_run: "exec_all f demo_duplicates_calls init_state = Inr demo_duplicates"
  by (simp add: demo_duplicates_calls_def demo_duplicates_def)

lemma demo_duplicates_valid: "valid_all f demo_duplicates_calls init_state"
  by (simp add: demo_duplicates_calls_def UniversitySystem_new_def Student_init_def
        Teacher_init_def Course_init_def add_student_def add_teacher_def add_course_def
        init_state_def)

lemma reachable_demo_duplicates: "reachable f demo_duplicates"
  using reachable_init demo_duplicates_valid demo_duplicates_run by (rule reachable_exec_all)

lemma demo_duplicates_eval:
  "u_students (university_obj demo_duplicates 0) = [(''S01'', 0)]"
  "u_teachers (university_obj demo_duplicates 0) = [(''T01'', 0)]"
  "u_courses (university_obj demo_duplicates 0) = [(''CSE110'', 0)]"
  "person_id (student_obj demo_duplicates (Suc 0)) = ''S01''"
  "person_id (teacher_obj demo_duplicates (Suc 0)) = ''T01''"
  "course_code (course_obj demo_duplicates (Suc 0)) = ''CSE110''"
  "stdout demo_duplicates = []"
  by (simp_all add: demo_duplicates_def UniversitySystem_new_def Student_init_def
        Teacher_init_def Course_init_def add_student_def add_teacher_def add_course_def
        init_state_def)

subsection \<open>Overwriting an entry\<close>

lemma update_overwrite:
  assumes "distinct (map fst al)" "map_of al k = Some old"
  shows "length (AList.update k v al) = length al"
    and "map fst (AList.update k v al) = map fst al"
    and "map_of (AList.update k v al) k = Some v"
    and "snd ` set (AList.update k v al) = insert v (snd ` {p \<in> set al. fst p \<noteq> k})"
proof -
  have k: "k \<in> set (map fst al)"
    using assms(2) by (auto dest: map_of_SomeD intro: rev_image_eqI)
  show "length (AList.update k v al) = length al"
    using k by (rule length_update_present)
  show "map fst (AList.update k v al) = map fst al"
    using k by (simp add: update_keys)
  show "map_of (AList.update k v al) k = Some v"
    by (simp add: update_conv')
  show "snd ` set (AList.update k v al) = insert v (snd ` {p \<in> set al. fst p \<noteq> k})"
    by (simp add: set_update_distinct [OF assms(1)])
qed

lemma overwritten_gone:
  assumes "distinct (map fst al)" "map_of al k = Some old" "old \<noteq> v"
    and key: "\<And>k' x. (k', x) \<in> set al \<Longrightarrow> ident x = k'"
  shows "old \<notin> snd ` set (AList.update k v al)"
proof
  assume "old \<in> snd ` set (AList.update k v al)"
  then have "old \<in> snd ` {p \<in> set al. fst p \<noteq> k}"
    using assms(3) by (simp add: update_overwrite(4) [OF assms(1,2)])
  then obtain k' where "(k', old) \<in> set al" "k' \<noteq> k" by auto
  moreover have "(k, old) \<in> set al" using assms(2) by (rule map_of_SomeD)
  ultimately show False using key by blast
qed

subsection \<open>Both sides of enrollment\<close>

lemma enrolled_ok_values_distinct:
  assumes "enrolled_ok st"
  shows "distinct (map snd (courses (student_obj st s)))"
proof -
  have e: "map (\<lambda>c. course_code (course_obj st c)) (map snd (courses (student_obj st s))) =
           map fst (courses (student_obj st s))"
    using enrolled_ok_entry [OF assms, of _ _ s] by auto
  show ?thesis
    using enrolled_ok_distinct [OF assms, of s] unfolding e [symmetric]
    by (simp only: distinct_map)
qed

lemma count_list_distinct:
  "distinct xs \<Longrightarrow> count_list xs x = (if x \<in> set xs then 1 else 0)"
  by (induction xs) auto

lemma enrolled_ok_not_value:
  assumes "enrolled_ok st"
    "\<not> dict_contains (course_code (course_obj st c)) (courses (student_obj st s))"
  shows "c \<notin> snd ` set (courses (student_obj st s))"
proof
  assume "c \<in> snd ` set (courses (student_obj st s))"
  then obtain k where k: "(k, c) \<in> set (courses (student_obj st s))" by auto
  then have "k = course_code (course_obj st c)"
    using enrolled_ok_entry [OF assms(1) k] by simp
  with k assms(2) show False
    by (auto simp: dict_contains_def intro: rev_image_eqI)
qed

lemma values_update_fresh:
  "k \<notin> fst ` set al \<Longrightarrow> snd ` set (AList.update k v al) = insert v (snd ` set al)"
  by (induction al) auto

lemma Student_add_course_effect:
  assumes "\<not> dict_contains (course_code (course_obj st c)) (courses (student_obj st s))"
    "s \<notin> set (students (course_obj st c))"
  shows "Student_add_course s c st =
     st\<lparr>student_obj := (student_obj st)(s := (student_obj st s)
            \<lparr>courses := AList.update (course_code (course_obj st c)) c
                          (courses (student_obj st s))\<rparr>),
        course_obj := (course_obj st)(c := (course_obj st c)
            \<lparr>students := students (course_obj st c) @ [s],
             observers := (if s \<in> set (observers (course_obj st c))
                           then observers (course_obj st c)
                           else observers (course_obj st c) @ [s])\<rparr>),
        stdout := stdout st @
          map (\<lambda>x. ''[Notification - '' @ name (student_obj st x) @ '']: Enrolled in '' @
                     course_name (course_obj st c))
              (if s \<in> set (observers (course_obj st c))
               then observers (course_obj st c)
               else observers (course_obj st c) @ [s])\<rparr>"
  using assms
  by (simp add: Student_add_course_def Course_add_student_effect notification_def
        cong: map_cong)

lemma agree_stdout [simp]: "agree (st\<lparr>stdout := out\<rparr>) = agree st"
  by (simp add: agree_def)

lemma agreeD:
  "agree st \<Longrightarrow>
   (s \<in> set (students (course_obj st c))) = (c \<in> snd ` set (courses (student_obj st s)))"
  by (simp add: agree_def dict_values_def)

lemma values_delete:
  assumes "enrolled_ok st" "map_of (courses (student_obj st s)) k = Some c"
  shows "snd ` set (AList.delete k (courses (student_obj st s))) =
         snd ` set (courses (student_obj st s)) - {c}"
proof -
  note d = enrolled_ok_distinct [OF assms(1), of s]
  have kc: "(k, c) \<in> set (courses (student_obj st s))"
    using assms(2) by (rule map_of_SomeD)
  have code: "k' = course_code (course_obj st c')"
    if "(k', c') \<in> set (courses (student_obj st s))" for k' c'
    using enrolled_ok_entry [OF assms(1) that] by simp
  have uniq: "c' = c" if "(k, c') \<in> set (courses (student_obj st s))" for c'
    using map_of_is_SomeI [OF d that] assms(2) by simp
  show ?thesis
  proof (intro equalityI subsetI)
    fix x assume "x \<in> snd ` set (AList.delete k (courses (student_obj st s)))"
    then obtain k' where k': "(k', x) \<in> set (courses (student_obj st s))" "k' \<noteq> k"
      by (auto simp: set_delete)
    have "x \<noteq> c" using code [OF k'(1)] code [OF kc] k'(2) by auto
    with k'(1) show "x \<in> snd ` set (courses (student_obj st s)) - {c}"
      by (auto intro: rev_image_eqI)
  next
    fix x assume "x \<in> snd ` set (courses (student_obj st s)) - {c}"
    then obtain k' where k': "(k', x) \<in> set (courses (student_obj st s))" "x \<noteq> c"
      by auto
    have "k' \<noteq> k" using uniq k' by auto
    with k'(1) show "x \<in> snd ` set (AList.delete k (courses (student_obj st s)))"
      by (auto simp: set_delete intro: rev_image_eqI)
  qed
qed

lemma Student_drop_course_enrolled:
  assumes "map_of (courses (student_obj st s)) k = Some c"
    "s \<in> set (students (course_obj st c))"
  shows "Student_drop_course s k st =
     Inr (st\<lparr>student_obj := (student_obj st)(s := (student_obj st s)
                 \<lparr>courses := AList.delete k (courses (student_obj st s))\<rparr>),
             course_obj := (course_obj st)(c := (course_obj st c)
                 \<lparr>students := remove1 s (students (course_obj st c))\<rparr>),
             stdout := stdout st @
               map (\<lambda>x. ''[Notification - '' @
                          name (if x = s then (student_obj st s)
                                   \<lparr>courses := AList.delete k (courses (student_obj st s))\<rparr>
                                else student_obj st x) @
                          '']: Dropped from '' @ course_name (course_obj st c))
                   (observers (course_obj st c))\<rparr>)"
  using assms(2)
  by (simp add: Student_drop_course_effect [OF assms(1)] Course_remove_student_effect
        notification_def cong: map_cong)

lemma agree_Student_add_course:
  assumes wf: "wf_state st" and ag: "agree st"
  shows "agree (Student_add_course s c st)"
proof (cases "dict_contains (course_code (course_obj st c)) (courses (student_obj st s))")
  case True
  with ag show ?thesis by (simp add: Student_add_course_noop)
next
  case False
  have en: "enrolled_ok st" using wf by (simp add: wf_state_def)
  have nv: "c \<notin> snd ` set (courses (student_obj st s))"
    using en False by (rule enrolled_ok_not_value)
  have nr: "s \<notin> set (students (course_obj st c))"
    using nv by (simp add: agreeD [OF ag])
  have fresh: "course_code (course_obj st c) \<notin> fst ` set (courses (student_obj st s))"
    using False by (simp add: dict_contains_def)
  show ?thesis
    unfolding Student_add_course_effect [OF False nr] agree_def dict_values_def
    by (auto simp: values_update_fresh [OF fresh] agreeD [OF ag])
qed

lemma agree_Student_drop_course:
  assumes wf: "wf_state st" and ag: "agree st"
  shows "\<exists>st'. Student_drop_course s k st = Inr st' \<and> agree st'"
proof (cases "map_of (courses (student_obj st s)) k")
  case None
  with ag show ?thesis by (simp add: Student_drop_course_noop)
next
  case (Some c)
  have en: "enrolled_ok st" and ro: "roster_ok st" using wf by (simp_all add: wf_state_def)
  have "c \<in> snd ` set (courses (student_obj st s))"
    using map_of_SomeD [OF Some] by (auto intro: rev_image_eqI)
  then have r: "s \<in> set (students (course_obj st c))"
    by (simp add: agreeD [OF ag])
  have "agree (st\<lparr>student_obj := (student_obj st)(s := (student_obj st s)
                 \<lparr>courses := AList.delete k (courses (student_obj st s))\<rparr>),
             course_obj := (course_obj st)(c := (course_obj st c)
                 \<lparr>students := remove1 s (students (course_obj st c))\<rparr>),
             stdout := out\<rparr>)" for out
    unfolding agree_def dict_values_def
    by (auto simp: values_delete [OF en Some] agreeD [OF ag]
          set_remove1_eq [OF roster_ok_distinct [OF ro]])
  then show ?thesis
    by (simp add: Student_drop_course_enrolled [OF Some r])
qed

lemma agree_demo_created: "agree demo_created"
  by (simp add: agree_def dict_values_def demo_created_def Course_init_def Student_init_def
        init_state_def)

section \<open>Verified properties\<close>

subsection \<open>GPA strategy\<close>




subsection \<open>Grade assignment\<close>



text \<open>
  Claim C3, as amended. In the demonstration the student is enrolled under the key
  "CSE110" and the grade is assigned under "CSE101". The enrollment check looks the
  provided code up among the keys of the student's enrolled-courses mapping; "CSE101"
  is not a key, so the assignment is rejected: the run ends without error, the student
  has no grade, "Student not enrolled in this course" is the second line printed, and
  the GPA is 0.
\<close>

theorem main_rejects_mismatched_code:
  "main f init_state = Inr (demo_final f) \<and>
   courses (student_obj (demo_final f) 0) = [(''CSE110'', 0)] \<and>
   course_code (course_obj (demo_final f) 0) = ''CSE110'' \<and>
   \<not> dict_contains ''CSE101'' (courses (student_obj (demo_final f) 0)) \<and>
   grades (student_obj (demo_final f) 0) = [] \<and>
   stdout (demo_final f) ! 1 = ''Student not enrolled in this course'' \<and>
   Student_calculate_gpa 0 (demo_final f) = Inr (Some (PyFloat (Finite 0)))"
  by (simp add: main_run)
     (simp add: demo_final_def dict_contains_def Student_calculate_gpa_def calculate_def
        RegularGPA_calculate_def)

text \<open>
  Claim C3, as stated, fails: at the end of the demonstration no grade is recorded
  under "CSE101".
\<close>

theorem main_grade_recorded_counterexample:
  "main str_num_demo init_state = Inr (demo_final str_num_demo) \<and>
   map_of (grades (student_obj (demo_final str_num_demo) 0)) ''CSE101'' = None \<and>
   \<not> dict_contains ''CSE101'' (grades (student_obj (demo_final str_num_demo) 0))"
  by (simp add: main_run) (simp add: demo_final_def dict_contains_def)

subsection \<open>Enrollment\<close>

text \<open>
  Claim C4. Enrolling a second time changes nothing but the output.
  \<^verbatim>\<open>Student.add_course\<close> with the course's code already a key of the student's
  mapping only prints "Already enrolled in this course"; \<^verbatim>\<open>Course.add_student\<close>
  with the student already on the roster changes nothing at all. Hence calling either
  operation twice leaves the roster size and the number of enrolled courses as they
  were after the first call.
\<close>

theorem enrollment_idempotent:
  "(dict_contains (course_code (course_obj st c)) (courses (student_obj st s)) \<longrightarrow>
      Student_add_course s c st =
        st\<lparr>stdout := stdout st @ [''Already enrolled in this course'']\<rparr>) \<and>
   (s \<in> set (students (course_obj st c)) \<longrightarrow> Course_add_student c s st = st) \<and>
   Student_add_course s c (Student_add_course s c st) =
     (Student_add_course s c st)\<lparr>stdout := stdout (Student_add_course s c st) @
        [''Already enrolled in this course'']\<rparr> \<and>
   length (students (course_obj (Student_add_course s c (Student_add_course s c st)) c)) =
     length (students (course_obj (Student_add_course s c st) c)) \<and>
   length (courses (student_obj (Student_add_course s c (Student_add_course s c st)) s)) =
     length (courses (student_obj (Student_add_course s c st) s)) \<and>
   Course_add_student c s (Course_add_student c s st) = Course_add_student c s st"
  using Student_add_course_noop [of st c s]
        Student_add_course_noop [OF Student_add_course_enrolled [of s c st]]
        Course_add_student_noop [OF Course_add_student_on_roster [of s c st]]
        Course_add_student_noop [of s st c]
  by simp

theorem enrollment_idempotent_witness:
  "dict_contains (course_code (course_obj demo_enrolled 0)) (courses (student_obj demo_enrolled 0)) \<and>
   0 \<in> set (students (course_obj demo_enrolled 0)) \<and>
   Student_add_course 0 0 demo_enrolled =
     demo_enrolled\<lparr>stdout := stdout demo_enrolled @ [''Already enrolled in this course'']\<rparr> \<and>
   Course_add_student 0 0 demo_enrolled = demo_enrolled \<and>
   length (students (course_obj (Student_add_course 0 0 demo_enrolled) 0)) = 1 \<and>
   length (courses (student_obj (Student_add_course 0 0 demo_enrolled) 0)) = 1"
  using enrollment_idempotent [where st = demo_enrolled and s = 0 and c = 0]
  by (simp add: demo_enrolled_eval dict_contains_def)

subsection \<open>User factory\<close>




subsection \<open>Direct enrollment through the course\<close>

text \<open>
  Claim C10. \<^verbatim>\<open>Course.add_student(s)\<close> with \<open>s\<close> not on the roster appends \<open>s\<close>
  to the roster, makes \<open>s\<close> a subscriber (appending it unless it already is one) and
  notifies every subscriber with "Enrolled in name", but changes no student object: the
  student's enrolled-courses mapping stays as it was. So a direct call reaches a state
  in which a student is on a roster without an entry in the student's own mapping, and
  the two sides disagree.
\<close>

theorem Course_add_student_one_sided:
  "(s \<notin> set (students (course_obj st c)) \<longrightarrow>
      students (course_obj (Course_add_student c s st) c) = students (course_obj st c) @ [s] \<and>
      s \<in> set (observers (course_obj (Course_add_student c s st) c)) \<and>
      observers (course_obj (Course_add_student c s st) c) =
        (if s \<in> set (observers (course_obj st c)) then observers (course_obj st c)
         else observers (course_obj st c) @ [s]) \<and>
      stdout (Course_add_student c s st) =
        stdout st @ map (notification st (''Enrolled in '' @ course_name (course_obj st c)))
                        (observers (course_obj (Course_add_student c s st) c)) \<and>
      student_obj (Course_add_student c s st) = student_obj st) \<and>
   reachable f demo_one_sided \<and>
   0 \<in> set (students (course_obj demo_one_sided 0)) \<and>
   courses (student_obj demo_one_sided 0) = [] \<and>
   \<not> agree demo_one_sided"
proof -
  have "\<not> agree demo_one_sided"
  proof
    assume "agree demo_one_sided"
    then have "0 \<in> set (students (course_obj demo_one_sided 0)) \<longleftrightarrow>
               0 \<in> set (dict_values (courses (student_obj demo_one_sided 0)))"
      unfolding agree_def by blast
    then show False by (simp add: demo_one_sided_eval dict_values_def)
  qed
  then show ?thesis
    by (auto simp: Course_add_student_effect reachable_demo_one_sided demo_one_sided_eval)
qed

theorem Course_add_student_one_sided_witness:
  "0 \<notin> set (students (course_obj demo_created 0)) \<and>
   students (course_obj (Course_add_student 0 0 demo_created) 0) = [0] \<and>
   observers (course_obj (Course_add_student 0 0 demo_created) 0) = [0] \<and>
   courses (student_obj (Course_add_student 0 0 demo_created) 0) = []"
  using Course_add_student_one_sided [where s = 0 and c = 0 and st = demo_created and f = str_num_demo]
  by (simp add: demo_created_eval)

subsection \<open>The registry singleton\<close>

text \<open>
  Claim C6. The first construction of the registry allocates it with three empty
  mappings and stores it in the class's slot. Every later construction, after any
  sequence of calls of the public interface, returns that same instance and changes
  nothing. So an entity added through the reference obtained first is found through a
  reference obtained by a later construction.
\<close>

theorem UniversitySystem_singleton:
  "(UniversitySystem_instance st = None \<longrightarrow>
      fst (UniversitySystem_new st) = next_university st \<and>
      university_obj (snd (UniversitySystem_new st)) (fst (UniversitySystem_new st)) =
        \<lparr>u_students = [], u_teachers = [], u_courses = []\<rparr>) \<and>
   (UniversitySystem_new st = (u, st1) \<and> exec_all f cs st1 = Inr st2 \<longrightarrow>
      UniversitySystem_new st2 = (u, st2)) \<and>
   (UniversitySystem_new st = (u, st1) \<longrightarrow>
      UniversitySystem_new (add_student u s st1) = (u, add_student u s st1) \<and>
      map_of (u_students (university_obj (add_student u s st1)
               (fst (UniversitySystem_new (add_student u s st1)))))
             (person_id (student_obj st1 s)) = Some s \<and>
      UniversitySystem_new (add_teacher u t st1) = (u, add_teacher u t st1) \<and>
      map_of (u_teachers (university_obj (add_teacher u t st1)
               (fst (UniversitySystem_new (add_teacher u t st1)))))
             (person_id (teacher_obj st1 t)) = Some t \<and>
      UniversitySystem_new (add_course u c st1) = (u, add_course u c st1) \<and>
      map_of (u_courses (university_obj (add_course u c st1)
               (fst (UniversitySystem_new (add_course u c st1)))))
             (course_code (course_obj st1 c)) = Some c)"
proof -
  have a: "UniversitySystem_instance st = None \<longrightarrow>
      fst (UniversitySystem_new st) = next_university st \<and>
      university_obj (snd (UniversitySystem_new st)) (fst (UniversitySystem_new st)) =
        \<lparr>u_students = [], u_teachers = [], u_courses = []\<rparr>"
    by (simp add: UniversitySystem_new_def)
  have b: "UniversitySystem_new st2 = (u, st2)"
    if "UniversitySystem_new st = (u, st1)" "exec_all f cs st1 = Inr st2"
    using that
    by (intro UniversitySystem_new_again instance_exec_all [of st1 u f cs st2]
          UniversitySystem_new_instance)
  have c: "UniversitySystem_new (add_student u s st1) = (u, add_student u s st1) \<and>
      map_of (u_students (university_obj (add_student u s st1)
               (fst (UniversitySystem_new (add_student u s st1)))))
             (person_id (student_obj st1 s)) = Some s \<and>
      UniversitySystem_new (add_teacher u t st1) = (u, add_teacher u t st1) \<and>
      map_of (u_teachers (university_obj (add_teacher u t st1)
               (fst (UniversitySystem_new (add_teacher u t st1)))))
             (person_id (teacher_obj st1 t)) = Some t \<and>
      UniversitySystem_new (add_course u c st1) = (u, add_course u c st1) \<and>
      map_of (u_courses (university_obj (add_course u c st1)
               (fst (UniversitySystem_new (add_course u c st1)))))
             (course_code (course_obj st1 c)) = Some c"
    if "UniversitySystem_new st = (u, st1)"
  proof -
    have i: "UniversitySystem_instance st1 = Some u"
      using that by (rule UniversitySystem_new_instance)
    have "UniversitySystem_new (add_student u s st1) = (u, add_student u s st1)"
      "UniversitySystem_new (add_teacher u t st1) = (u, add_teacher u t st1)"
      "UniversitySystem_new (add_course u c st1) = (u, add_course u c st1)"
      using i by (simp_all add: UniversitySystem_new_def add_student_def add_teacher_def
            add_course_def)
    then show ?thesis
      by (simp add: add_student_def add_teacher_def add_course_def update_conv')
  qed
  from a b c show ?thesis by blast
qed

theorem UniversitySystem_singleton_witness:
  "UniversitySystem_instance demo_student = None \<and>
   UniversitySystem_new demo_student = (0, demo_university) \<and>
   exec_all str_num_demo [AddStudent 0 0, ListStudents 0] demo_university =
     Inr (list_students 0 (add_student 0 0 demo_university)) \<and>
   UniversitySystem_new (list_students 0 (add_student 0 0 demo_university)) =
     (0, list_students 0 (add_student 0 0 demo_university)) \<and>
   UniversitySystem_new (add_student 0 0 demo_university) = (0, add_student 0 0 demo_university) \<and>
   map_of (u_students (university_obj (add_student 0 0 demo_university) 0)) ''S01'' = Some 0"
  using UniversitySystem_singleton
          [where st = demo_student and u = 0 and ?st1.0 = demo_university and f = str_num_demo
             and cs = "[AddStudent 0 0, ListStudents 0]"
             and ?st2.0 = "list_students 0 (add_student 0 0 demo_university)"
             and s = 0 and t = 0 and c = 0]
  by (auto simp: demo_university_eval demo_student_eval)

subsection \<open>Removal from a roster\<close>

text \<open>
  Claim C8. In every reachable state, \<^verbatim>\<open>Course.remove_student(s)\<close> with \<open>s\<close> on the
  roster takes \<open>s\<close> off the roster and prints "Dropped from name" for every subscriber.
  The subscriber list is not changed, so \<open>s\<close>, a subscriber since it joined the roster,
  is still one: it receives the "Dropped" notification itself and every later
  notification of the course. With \<open>s\<close> not on the roster, in any state, nothing
  changes and nothing is printed.
\<close>

theorem Course_remove_student_keeps_subscriber:
  "(reachable f st \<and> s \<in> set (students (course_obj st c)) \<longrightarrow>
      (\<exists>st'. Course_remove_student c s st = Inr st' \<and>
         students (course_obj st' c) = remove1 s (students (course_obj st c)) \<and>
         s \<notin> set (students (course_obj st' c)) \<and>
         observers (course_obj st' c) = observers (course_obj st c) \<and>
         s \<in> set (observers (course_obj st' c)) \<and>
         stdout st' = stdout st @
           map (notification st (''Dropped from '' @ course_name (course_obj st c)))
               (observers (course_obj st c)) \<and>
         student_obj st' = student_obj st \<and>
         (\<forall>c'. c' \<noteq> c \<longrightarrow> course_obj st' c' = course_obj st c') \<and>
         (\<forall>m. stdout (Course_notify c m st') =
                stdout st' @ map (notification st' m) (observers (course_obj st c))))) \<and>
   (s \<notin> set (students (course_obj st c)) \<longrightarrow> Course_remove_student c s st = Inr st)"
proof -
  have r: "roster_ok st" if "reachable f st"
    using reachable_wf_state [OF that] by (simp add: wf_state_def)
  have "s \<notin> set (remove1 s (students (course_obj st c)))" if "reachable f st"
    using roster_ok_distinct [OF r [OF that], of c] by (simp add: set_remove1_eq)
  moreover have "s \<in> set (observers (course_obj st c))"
    if "reachable f st" "s \<in> set (students (course_obj st c))"
    using roster_ok_observed [OF r [OF that(1)] that(2)] .
  ultimately show ?thesis
    by (auto simp: Course_remove_student_effect Course_remove_student_noop Course_notify_effect)
qed

theorem Course_remove_student_keeps_subscriber_witness:
  "reachable str_num_demo demo_enrolled \<and> 0 \<in> set (students (course_obj demo_enrolled 0)) \<and>
   Course_remove_student 0 0 demo_enrolled =
     Inr (demo_enrolled\<lparr>course_obj := (course_obj demo_enrolled)(0 := (course_obj demo_enrolled 0)
              \<lparr>students := []\<rparr>),
            stdout := [''[Notification - MS Dhoni]: Enrolled in Intro to Programming'',
                       ''[Notification - MS Dhoni]: Dropped from Intro to Programming'']\<rparr>) \<and>
   1 \<notin> set (students (course_obj demo_enrolled 0)) \<and>
   Course_remove_student 0 1 demo_enrolled = Inr demo_enrolled"
  using Course_remove_student_keeps_subscriber
          [where f = str_num_demo and st = demo_enrolled and s = 0 and c = 0]
        Course_remove_student_keeps_subscriber
          [where f = str_num_demo and st = demo_enrolled and s = 1 and c = 0]
  by (simp add: reachable_demo_enrolled demo_enrolled_eval Course_remove_student_effect
        notification_def)

subsection \<open>Registering under a key already present\<close>

text \<open>
  Claim C9, as amended. In every reachable state, adding a student (teacher, course)
  whose id (code) is already a key of the registry's mapping puts the new entity under
  that key and leaves the keys, their order and the size of the mapping unchanged; the
  call succeeds and prints nothing. If the new entity is another object than the one
  stored before, the old one is no longer a value of that mapping.
\<close>

theorem registry_add_overwrites:
  "(reachable f st \<and>
    map_of (u_students (university_obj st u)) (person_id (student_obj st s)) = Some old \<longrightarrow>
      exec f (AddStudent u s) st = Inr (add_student u s st) \<and>
      map_of (u_students (university_obj (add_student u s st) u)) (person_id (student_obj st s)) =
        Some s \<and>
      length (u_students (university_obj (add_student u s st) u)) =
        length (u_students (university_obj st u)) \<and>
      map fst (u_students (university_obj (add_student u s st) u)) =
        map fst (u_students (university_obj st u)) \<and>
      stdout (add_student u s st) = stdout st \<and>
      (old \<noteq> s \<longrightarrow> old \<notin> set (dict_values (u_students (university_obj (add_student u s st) u))))) \<and>
   (reachable f st \<and>
    map_of (u_teachers (university_obj st u)) (person_id (teacher_obj st t)) = Some old \<longrightarrow>
      exec f (AddTeacher u t) st = Inr (add_teacher u t st) \<and>
      map_of (u_teachers (university_obj (add_teacher u t st) u)) (person_id (teacher_obj st t)) =
        Some t \<and>
      length (u_teachers (university_obj (add_teacher u t st) u)) =
        length (u_teachers (university_obj st u)) \<and>
      map fst (u_teachers (university_obj (add_teacher u t st) u)) =
        map fst (u_teachers (university_obj st u)) \<and>
      stdout (add_teacher u t st) = stdout st \<and>
      (old \<noteq> t \<longrightarrow> old \<notin> set (dict_values (u_teachers (university_obj (add_teacher u t st) u))))) \<and>
   (reachable f st \<and>
    map_of (u_courses (university_obj st u)) (course_code (course_obj st c)) = Some old \<longrightarrow>
      exec f (AddCourse u c) st = Inr (add_course u c st) \<and>
      map_of (u_courses (university_obj (add_course u c st) u)) (course_code (course_obj st c)) =
        Some c \<and>
      length (u_courses (university_obj (add_course u c st) u)) =
        length (u_courses (university_obj st u)) \<and>
      map fst (u_courses (university_obj (add_course u c st) u)) =
        map fst (u_courses (university_obj st u)) \<and>
      stdout (add_course u c st) = stdout st \<and>
      (old \<noteq> c \<longrightarrow> old \<notin> set (dict_values (u_courses (university_obj (add_course u c st) u)))))"
proof -
  have reg: "registry_ok st" if "reachable f st"
    using reachable_wf_state [OF that] by (simp add: wf_state_def)
  have a: "map_of (u_students (university_obj (add_student u s st) u)) (person_id (student_obj st s)) =
        Some s \<and>
      length (u_students (university_obj (add_student u s st) u)) =
        length (u_students (university_obj st u)) \<and>
      map fst (u_students (university_obj (add_student u s st) u)) =
        map fst (u_students (university_obj st u)) \<and>
      stdout (add_student u s st) = stdout st \<and>
      (old \<noteq> s \<longrightarrow> old \<notin> set (dict_values (u_students (university_obj (add_student u s st) u))))"
    if r: "reachable f st"
      and m: "map_of (u_students (university_obj st u)) (person_id (student_obj st s)) = Some old"
  proof -
    note d = registry_ok_distinct(1) [OF reg [OF r], of u]
    have "old \<notin> snd ` set (AList.update (person_id (student_obj st s)) s
                      (u_students (university_obj st u)))" if "old \<noteq> s"
      using d m that
      by (rule overwritten_gone [where ident = "\<lambda>x. person_id (student_obj st x)"])
         (simp add: registry_ok_student [OF reg [OF r]])
    then show ?thesis
      by (simp add: add_student_def update_overwrite [OF d m] dict_values_def)
  qed
  have b: "map_of (u_teachers (university_obj (add_teacher u t st) u)) (person_id (teacher_obj st t)) =
        Some t \<and>
      length (u_teachers (university_obj (add_teacher u t st) u)) =
        length (u_teachers (university_obj st u)) \<and>
      map fst (u_teachers (university_obj (add_teacher u t st) u)) =
        map fst (u_teachers (university_obj st u)) \<and>
      stdout (add_teacher u t st) = stdout st \<and>
      (old \<noteq> t \<longrightarrow> old \<notin> set (dict_values (u_teachers (university_obj (add_teacher u t st) u))))"
    if r: "reachable f st"
      and m: "map_of (u_teachers (university_obj st u)) (person_id (teacher_obj st t)) = Some old"
  proof -
    note d = registry_ok_distinct(2) [OF reg [OF r], of u]
    have "old \<notin> snd ` set (AList.update (person_id (teacher_obj st t)) t
                      (u_teachers (university_obj st u)))" if "old \<noteq> t"
      using d m that
      by (rule overwritten_gone [where ident = "\<lambda>x. person_id (teacher_obj st x)"])
         (simp add: registry_ok_teacher [OF reg [OF r]])
    then show ?thesis
      by (simp add: add_teacher_def update_overwrite [OF d m] dict_values_def)
  qed
  have c: "map_of (u_courses (university_obj (add_course u c st) u)) (course_code (course_obj st c)) =
        Some c \<and>
      length (u_courses (university_obj (add_course u c st) u)) =
        length (u_courses (university_obj st u)) \<and>
      map fst (u_courses (university_obj (add_course u c st) u)) =
        map fst (u_courses (university_obj st u)) \<and>
      stdout (add_course u c st) = stdout st \<and>
      (old \<noteq> c \<longrightarrow> old \<notin> set (dict_values (u_courses (university_obj (add_course u c st) u))))"
    if r: "reachable f st"
      and m: "map_of (u_courses (university_obj st u)) (course_code (course_obj st c)) = Some old"
  proof -
    note d = registry_ok_distinct(3) [OF reg [OF r], of u]
    have "old \<notin> snd ` set (AList.update (course_code (course_obj st c)) c
                      (u_courses (university_obj st u)))" if "old \<noteq> c"
      using d m that
      by (rule overwritten_gone [where ident = "\<lambda>x. course_code (course_obj st x)"])
         (simp add: registry_ok_course [OF reg [OF r]])
    then show ?thesis
      by (simp add: add_course_def update_overwrite [OF d m] dict_values_def)
  qed
  from a b c show ?thesis by simp
qed

theorem registry_add_overwrites_witness:
  "reachable str_num_demo demo_duplicates \<and>
   map_of (u_students (university_obj demo_duplicates 0))
     (person_id (student_obj demo_duplicates 1)) = Some 0 \<and>
   u_students (university_obj (add_student 0 1 demo_duplicates) 0) = [(''S01'', 1)] \<and>
   0 \<notin> set (dict_values (u_students (university_obj (add_student 0 1 demo_duplicates) 0))) \<and>
   map_of (u_teachers (university_obj demo_duplicates 0))
     (person_id (teacher_obj demo_duplicates 1)) = Some 0 \<and>
   u_teachers (university_obj (add_teacher 0 1 demo_duplicates) 0) = [(''T01'', 1)] \<and>
   0 \<notin> set (dict_values (u_teachers (university_obj (add_teacher 0 1 demo_duplicates) 0))) \<and>
   map_of (u_courses (university_obj demo_duplicates 0))
     (course_code (course_obj demo_duplicates 1)) = Some 0 \<and>
   u_courses (university_obj (add_course 0 1 demo_duplicates) 0) = [(''CSE110'', 1)] \<and>
   0 \<notin> set (dict_values (u_courses (university_obj (add_course 0 1 demo_duplicates) 0)))"
  using registry_add_overwrites
          [where f = str_num_demo and st = demo_duplicates and u = 0 and s = 1 and t = 1
             and c = 1 and old = 0]
  by (simp add: reachable_demo_duplicates demo_duplicates_eval add_student_def add_teacher_def
        add_course_def dict_values_def)

text \<open>
  Claim C9, as stated, fails. Registering the student that is already stored under its
  id leaves that student in the mapping; and a student replaced in the mapping by
  another one with the same id is still referenced from the registry through the roster
  of a registered course.
\<close>

theorem registry_old_entity_counterexample:
  "map_of (u_students (university_obj demo_registered 0))
     (person_id (student_obj demo_registered 0)) = Some 0 \<and>
   0 \<in> set (dict_values (u_students (university_obj (add_student 0 0 demo_registered) 0))) \<and>
   main str_num_demo init_state = Inr (demo_final str_num_demo) \<and>
   map_of (u_students (university_obj demo_replaced 0)) ''S01'' = Some 0 \<and>
   person_id (student_obj demo_replaced 1) = ''S01'' \<and>
   u_students (university_obj (add_student 0 1 demo_replaced) 0) = [(''S01'', 1)] \<and>
   map_of (u_courses (university_obj (add_student 0 1 demo_replaced) 0)) ''CSE110'' = Some 0 \<and>
   0 \<in> set (students (course_obj (add_student 0 1 demo_replaced) 0))"
  by (simp add: main_run)
     (simp add: demo_registered_eval add_student_def dict_values_def demo_replaced_def
        Student_init_def demo_final_def)

subsection \<open>Both sides of enrollment agree\<close>

text \<open>
  Claim C5. In every reachable state, after \<^verbatim>\<open>Student.add_course(c)\<close> with the
  code of the allocated course \<open>c\<close> not yet a key of the student's mapping, the roster
  of \<open>c\<close> contains the student exactly once and the student's mapping contains \<open>c\<close>
  exactly once, under the code of \<open>c\<close>. After \<^verbatim>\<open>Student.drop_course(k)\<close> with
  \<open>c\<close> stored under \<open>k\<close>, the key is gone, the student is off the roster of \<open>c\<close>
  and \<open>c\<close> is no value of the mapping. Both operations keep the two sides in
  agreement: if every student is on a course's roster exactly when the course is a
  value of the student's mapping, this still holds afterwards.
\<close>

theorem enrollment_bidirectional:
  "(reachable f st \<and> c < next_course st \<and>
    \<not> dict_contains (course_code (course_obj st c)) (courses (student_obj st s)) \<longrightarrow>
      count_list (students (course_obj (Student_add_course s c st) c)) s = 1 \<and>
      count_list (dict_values (courses (student_obj (Student_add_course s c st) s))) c = 1 \<and>
      map_of (courses (student_obj (Student_add_course s c st) s))
        (course_code (course_obj (Student_add_course s c st) c)) = Some c) \<and>
   (reachable f st \<and> map_of (courses (student_obj st s)) k = Some c \<longrightarrow>
      (\<exists>st'. Student_drop_course s k st = Inr st' \<and>
         \<not> dict_contains k (courses (student_obj st' s)) \<and>
         s \<notin> set (students (course_obj st' c)) \<and>
         c \<notin> set (dict_values (courses (student_obj st' s))))) \<and>
   (reachable f st \<and> agree st \<longrightarrow> agree (Student_add_course s c st)) \<and>
   (reachable f st \<and> agree st \<longrightarrow>
      (\<exists>st'. Student_drop_course s k st = Inr st' \<and> agree st'))"
proof -
  have a: "count_list (students (course_obj (Student_add_course s c st) c)) s = 1 \<and>
      count_list (dict_values (courses (student_obj (Student_add_course s c st) s))) c = 1 \<and>
      map_of (courses (student_obj (Student_add_course s c st) s))
        (course_code (course_obj (Student_add_course s c st) c)) = Some c"
    if r: "reachable f st" and v: "c < next_course st"
      and n: "\<not> dict_contains (course_code (course_obj st c)) (courses (student_obj st s))"
  proof -
    let ?st1 = "st\<lparr>student_obj := (student_obj st)(s := (student_obj st s)
          \<lparr>courses := AList.update (course_code (course_obj st c)) c (courses (student_obj st s))\<rparr>)\<rparr>"
    let ?st' = "Student_add_course s c st"
    have st': "?st' = Course_add_student c s ?st1"
      using n by (simp add: Student_add_course_def)
    have wf: "wf_state ?st'"
      using reachable_wf_state [OF r] v by (rule wf_state_Student_add_course)
    have on: "s \<in> set (students (course_obj ?st' c))"
      unfolding st' by (rule Course_add_student_on_roster)
    have code: "course_code (course_obj ?st' c) = course_code (course_obj st c)"
      using frame_Student_add_course [of st s c] by (simp add: frame_def)
    have m: "map_of (courses (student_obj ?st' s)) (course_code (course_obj st c)) = Some c"
      unfolding st' by (simp add: student_obj_Course_add_student update_conv')
    have "c \<in> set (map snd (courses (student_obj ?st' s)))"
      using map_of_SomeD [OF m] by (auto intro: rev_image_eqI)
    moreover have "distinct (map snd (courses (student_obj ?st' s)))"
      using wf by (simp add: wf_state_def enrolled_ok_values_distinct)
    moreover have "distinct (students (course_obj ?st' c))"
      using wf by (simp add: wf_state_def roster_ok_distinct)
    ultimately show ?thesis
      using on m code by (simp add: count_list_distinct dict_values_def)
  qed
  have b: "\<exists>st'. Student_drop_course s k st = Inr st' \<and>
         \<not> dict_contains k (courses (student_obj st' s)) \<and>
         s \<notin> set (students (course_obj st' c)) \<and>
         c \<notin> set (dict_values (courses (student_obj st' s)))"
    if r: "reachable f st" and m: "map_of (courses (student_obj st s)) k = Some c"
  proof -
    have en: "enrolled_ok st" and ro: "roster_ok st"
      using reachable_wf_state [OF r] by (simp_all add: wf_state_def)
    note vd = values_delete [OF en m]
    show ?thesis
    proof (cases "s \<in> set (students (course_obj st c))")
      case True
      show ?thesis
        by (simp add: Student_drop_course_enrolled [OF m True] dict_contains_def dict_values_def
              vd delete_notin_dom set_remove1_eq [OF roster_ok_distinct [OF ro]])
    next
      case False
      then show ?thesis
        by (simp add: Student_drop_course_effect [OF m] Course_remove_student_noop
              dict_contains_def dict_values_def vd delete_notin_dom)
    qed
  qed
  have c: "agree (Student_add_course s c st)" if "reachable f st" "agree st"
    using reachable_wf_state [OF that(1)] that(2) by (rule agree_Student_add_course)
  have d: "\<exists>st'. Student_drop_course s k st = Inr st' \<and> agree st'"
    if "reachable f st" "agree st"
    using reachable_wf_state [OF that(1)] that(2) by (rule agree_Student_drop_course)
  from a b c d show ?thesis by blast
qed

theorem enrollment_bidirectional_witness:
  "reachable str_num_demo demo_created \<and> 0 < next_course demo_created \<and>
   \<not> dict_contains (course_code (course_obj demo_created 0)) (courses (student_obj demo_created 0)) \<and>
   agree demo_created \<and>
   count_list (students (course_obj (Student_add_course 0 0 demo_created) 0)) 0 = 1 \<and>
   count_list (dict_values (courses (student_obj (Student_add_course 0 0 demo_created) 0))) 0 = 1 \<and>
   agree (Student_add_course 0 0 demo_created) \<and>
   reachable str_num_demo demo_enrolled \<and> agree demo_enrolled \<and>
   map_of (courses (student_obj demo_enrolled 0)) ''CSE110'' = Some 0 \<and>
   (\<exists>st'. Student_drop_course 0 ''CSE110'' demo_enrolled = Inr st' \<and>
      0 \<notin> set (students (course_obj st' 0)) \<and> agree st')"
proof -
  have h: "reachable str_num_demo demo_created" "0 < next_course demo_created"
    "\<not> dict_contains (course_code (course_obj demo_created 0))
         (courses (student_obj demo_created 0))"
    "reachable str_num_demo demo_enrolled"
    "map_of (courses (student_obj demo_enrolled 0)) ''CSE110'' = Some 0"
    by (simp_all add: reachable_demo_created reachable_demo_enrolled demo_created_eval
          demo_enrolled_eval dict_contains_def)
  show ?thesis
    using enrollment_bidirectional
            [where f = str_num_demo and st = demo_created and s = 0 and c = 0
               and k = "''CSE110''"]
          enrollment_bidirectional
            [where f = str_num_demo and st = demo_enrolled and s = 0 and c = 0
               and k = "''CSE110''"]
          h agree_demo_created
    by (auto simp: demo_enrolled_eq)
qed

end
